theory Spec2Isabelle
  imports Complex_Main "HOL-Library.AList" "HOL-Library.Sublist"
begin

section \<open>Decoded JSON documents\<close>

text \<open>
  The program decodes \<^verbatim>\<open>manifest.json\<close> and \<^verbatim>\<open>catalog.json\<close> with
  \<^verbatim>\<open>json.Unmarshal\<close> into \<^verbatim>\<open>map[string]interface{}\<close>. A decoded value is
  \<^verbatim>\<open>nil\<close>, a bool, a float64, a string, a \<^verbatim>\<open>[]interface{}\<close> or a
  \<^verbatim>\<open>map[string]interface{}\<close>.

  A Go map is modelled as an association list. \<open>map_of\<close> is the lookup, \<open>AList.update\<close>
  the assignment \<^verbatim>\<open>m[k] = v\<close> (it replaces the binding of an existing key and adds a
  new one otherwise), and a \<^verbatim>\<open>range\<close> loop visits the bindings in the order of the
  list. Go leaves this order unspecified; the theorems below hold for every list, hence
  for every order in which a map may be visited. A map decoded from JSON or built by the
  program has one binding per key: \<open>distinct (map fst m)\<close>.
\<close>

datatype json =
    JNull
  | JBool bool
  | JNum rat
  | JStr string
  | JArr "json list"
  | JObj "(string \<times> json) list"

type_synonym object = "(string \<times> json) list"

text \<open>The checked type assertions \<^verbatim>\<open>v, ok := node[k].(T)\<close>: \<open>None\<close> is \<^verbatim>\<open>ok == false\<close>,
  which is also what a missing key gives (the lookup yields the \<^verbatim>\<open>nil\<close> interface).\<close>

definition getString :: "object \<Rightarrow> string \<Rightarrow> string option" where
  "getString node k = (case map_of node k of Some (JStr s) \<Rightarrow> Some s | _ \<Rightarrow> None)"

definition getObject :: "object \<Rightarrow> string \<Rightarrow> object option" where
  "getObject node k = (case map_of node k of Some (JObj m) \<Rightarrow> Some m | _ \<Rightarrow> None)"

definition getArray :: "object \<Rightarrow> string \<Rightarrow> json list option" where
  "getArray node k = (case map_of node k of Some (JArr xs) \<Rightarrow> Some xs | _ \<Rightarrow> None)"

text \<open>\<^verbatim>\<open>s, _ := node[k].(string)\<close>: the zero value \<^verbatim>\<open>""\<close> when the assertion fails.\<close>

definition stringOrEmpty :: "object \<Rightarrow> string \<Rightarrow> string" where
  "stringOrEmpty node k = (case getString node k of Some s \<Rightarrow> s | None \<Rightarrow> [])"

text \<open>A call either returns or aborts the program by a runtime panic.\<close>

datatype 'a outcome = Ret 'a | Panic

text \<open>The error values of the program. The messages are French in the source:
  \<^item> \<open>UniqueIdInvalid\<close>: "unique_id absent ou invalide";
  \<^item> \<open>UniqueIdNotInManifest id\<close>: "unique_id %s non trouve dans le manifest";
  \<^item> \<open>TableNotFound id\<close>: "table %s non trouvee";
  \<^item> \<open>DuplicateUniqueId id\<close>: "unique_id %s en double";
  \<^item> \<open>ManifestNotFound\<close>, \<open>CatalogNotFound\<close>: "manifest.json / catalog.json non trouve dans %s";
  \<^item> \<open>ReadFileError\<close>, \<open>UnmarshalError\<close>, \<open>MarshalError\<close>, \<open>WriteFileError\<close>: the errors
    of \<^verbatim>\<open>os.ReadFile\<close>, \<^verbatim>\<open>json.Unmarshal\<close>, \<^verbatim>\<open>json.MarshalIndent\<close> and \<^verbatim>\<open>os.WriteFile\<close>;
  \<^item> \<open>NoTablesAfterFilter\<close>: "aucune table apres filtrage, verifiez path_filter".
  A Go function of result type \<^verbatim>\<open>(T, error)\<close> returns a pair whose second component is
  \<open>None\<close> for \<^verbatim>\<open>nil\<close>.\<close>

datatype error =
    UniqueIdInvalid
  | UniqueIdNotInManifest string
  | TableNotFound string
  | DuplicateUniqueId string
  | ManifestNotFound
  | CatalogNotFound
  | ReadFileError
  | UnmarshalError
  | MarshalError
  | WriteFileError
  | NoTablesAfterFilter

section \<open>Library functions\<close>

text \<open>\<^verbatim>\<open>strings.ToLower\<close> is a parameter of the model, as the separator of the host
  is: every function that calls it takes it as its first argument, written
  \<open>ToLower\<close>, and the theorems hold for every function in its place. The examples
  run on ASCII names, where \<^verbatim>\<open>strings.ToLower\<close> maps the letters \<^verbatim>\<open>A\<close> to \<^verbatim>\<open>Z\<close>
  to \<^verbatim>\<open>a\<close> to \<^verbatim>\<open>z\<close> and keeps every other byte; \<open>asciiToLower\<close> is this function.\<close>

definition lowerChar :: "char \<Rightarrow> char" where
  "lowerChar c =
     (case map_of (zip ''ABCDEFGHIJKLMNOPQRSTUVWXYZ'' ''abcdefghijklmnopqrstuvwxyz'') c of
        Some l \<Rightarrow> l
      | None \<Rightarrow> c)"

definition asciiToLower :: "string \<Rightarrow> string" where
  "asciiToLower s = map lowerChar s"

text \<open>\<^verbatim>\<open>filepath.ToSlash\<close>: the identity where the separator of the host is \<^verbatim>\<open>/\<close>,
  otherwise every separator is replaced by \<^verbatim>\<open>/\<close>. The separator is a parameter.\<close>

definition ToSlash :: "char \<Rightarrow> string \<Rightarrow> string" where
  "ToSlash sep path =
     (if sep = CHR ''/'' then path else map (\<lambda>c. if c = sep then CHR ''/'' else c) path)"

text \<open>\<^verbatim>\<open>strings.HasPrefix(s, p)\<close> is \<open>prefix p s\<close>.\<close>

definition HasPrefix :: "string \<Rightarrow> string \<Rightarrow> bool" where
  "HasPrefix s p = prefix p s"

text \<open>A \<^verbatim>\<open>float64\<close> that is the quotient of two counts. The quotient of \<open>a\<close> by a positive
  \<open>b\<close> is kept exact (rounding to the nearest double is monotone and keeps \<open>0\<close> and \<open>1\<close>,
  so bounds by \<open>0\<close> and \<open>1\<close> carry over); division by zero does not panic on floats, it
  gives NaN for \<open>0/0\<close> and an infinity otherwise.\<close>

datatype float64 = NaN | PosInf | Fin rat

definition fdiv :: "nat \<Rightarrow> nat \<Rightarrow> float64" where
  "fdiv a b = (if b = 0 then (if a = 0 then NaN else PosInf) else Fin (of_nat a / of_nat b))"

section \<open>Data model\<close>

record Column =
  c_Name :: string
  c_Doc :: bool
  c_Test :: bool

record Table =
  t_UniqueID :: string
  t_Name :: string
  t_OriginalFilePath :: string
  t_Columns :: "(string \<times> Column) list"

record Catalog =
  Tables :: "(string \<times> Table) list"

record Manifest =
  Sources :: "(string \<times> object) list"
  Models :: "(string \<times> object) list"
  Seeds :: "(string \<times> object) list"
  Snapshots :: "(string \<times> object) list"
  Tests :: "(string \<times> (string \<times> json list) list) list"

record ColumnReport =
  cr_Name :: string
  cr_Covered :: nat
  cr_Total :: nat
  cr_Coverage :: float64

record TableReport =
  tr_Name :: string
  tr_Covered :: nat
  tr_Total :: nat
  tr_Coverage :: float64
  tr_Columns :: "ColumnReport list"

record JSONReport =
  jr_CovType :: string
  jr_Covered :: nat
  jr_Total :: nat
  jr_Coverage :: float64
  jr_Tables :: "TableReport list"

text \<open>The counters are Go \<^verbatim>\<open>int\<close>s counting the bindings of maps held in memory; they
  are modelled by \<open>nat\<close>. \<^verbatim>\<open>CoverageType\<close> is a string type with the two constants
  below; a value that is neither counts no column as covered.\<close>

definition CoverageTypeDoc :: string where
  "CoverageTypeDoc = ''doc''"

definition CoverageTypeTest :: string where
  "CoverageTypeTest = ''test''"

text \<open>The zero values \<^verbatim>\<open>Table{}\<close> and \<^verbatim>\<open>Catalog{}\<close>.\<close>

definition zeroTable :: Table where
  "zeroTable = \<lparr>t_UniqueID = [], t_Name = [], t_OriginalFilePath = [], t_Columns = []\<rparr>"

definition zeroCatalog :: Catalog where
  "zeroCatalog = \<lparr>Tables = []\<rparr>"

section \<open>The coverage report\<close>

text \<open>The \<^verbatim>\<open>switch covType\<close> of \<^verbatim>\<open>computeJSONReport\<close>.\<close>

definition colCovered :: "string \<Rightarrow> Column \<Rightarrow> nat" where
  "colCovered covType col =
     (if covType = CoverageTypeDoc then (if c_Doc col then 1 else 0)
      else if covType = CoverageTypeTest then (if c_Test col then 1 else 0)
      else 0)"

text \<open>The inner loop over \<^verbatim>\<open>table.Columns\<close>; the state is
  \<^verbatim>\<open>(cols, tableCovered, tableTotal)\<close>.\<close>

fun reportColumns ::
  "string \<Rightarrow> (string \<times> Column) list \<Rightarrow> ColumnReport list \<times> nat \<times> nat
     \<Rightarrow> ColumnReport list \<times> nat \<times> nat" where
  "reportColumns covType [] acc = acc"
| "reportColumns covType ((k, col) # rest) (cols, tableCovered, tableTotal) =
     (let colTotal = 1;
          covered = colCovered covType col
      in reportColumns covType rest
           (cols @ [\<lparr>cr_Name = c_Name col, cr_Covered = covered, cr_Total = colTotal,
                      cr_Coverage = fdiv covered colTotal\<rparr>],
            tableCovered + covered, tableTotal + colTotal))"

text \<open>One pass of the outer loop body: the report of one table. The quotient is
  taken without a test for \<^verbatim>\<open>tableTotal == 0\<close>.\<close>

definition reportTable :: "string \<Rightarrow> Table \<Rightarrow> TableReport" where
  "reportTable covType table =
     (case reportColumns covType (t_Columns table) ([], 0, 0) of
        (cols, tableCovered, tableTotal) \<Rightarrow>
          \<lparr>tr_Name = t_Name table, tr_Covered = tableCovered, tr_Total = tableTotal,
           tr_Coverage = fdiv tableCovered tableTotal, tr_Columns = cols\<rparr>)"

text \<open>The outer loop over \<^verbatim>\<open>catalog.Tables\<close>; the state is
  \<^verbatim>\<open>(tables, globalCovered, globalTotal)\<close>.\<close>

fun reportTables ::
  "string \<Rightarrow> (string \<times> Table) list \<Rightarrow> TableReport list \<times> nat \<times> nat
     \<Rightarrow> TableReport list \<times> nat \<times> nat" where
  "reportTables covType [] acc = acc"
| "reportTables covType ((k, table) # rest) (tables, globalCovered, globalTotal) =
     (let r = reportTable covType table
      in reportTables covType rest
           (tables @ [r], globalCovered + tr_Covered r, globalTotal + tr_Total r))"

definition computeJSONReport :: "Catalog \<Rightarrow> string \<Rightarrow> JSONReport" where
  "computeJSONReport catalog covType =
     (case reportTables covType (Tables catalog) ([], 0, 0) of
        (tables, globalCovered, globalTotal) \<Rightarrow>
          \<lparr>jr_CovType = covType, jr_Covered = globalCovered, jr_Total = globalTotal,
           jr_Coverage = (if globalTotal > 0 then fdiv globalCovered globalTotal else Fin 0),
           jr_Tables = tables\<rparr>)"

section \<open>Columns and validity tests\<close>

text \<open>\<^verbatim>\<open>node["name"].(string)\<close> is an unchecked type assertion: it panics when the
  field is absent or is not a string.\<close>

definition NewColumnFromNode :: "(string \<Rightarrow> string) \<Rightarrow> object \<Rightarrow> Column outcome" where
  "NewColumnFromNode ToLower node =
     (case getString node ''name'' of
        None \<Rightarrow> Panic
      | Some s \<Rightarrow> Ret \<lparr>c_Name = ToLower s, c_Doc = False, c_Test = False\<rparr>)"

text \<open>\<^verbatim>\<open>m[k]\<close> as an \<^verbatim>\<open>interface{}\<close>: \<^verbatim>\<open>nil\<close>, which is what a JSON \<^verbatim>\<open>null\<close> decodes
  to, when the key is missing.\<close>

definition index :: "object \<Rightarrow> string \<Rightarrow> json" where
  "index node k = (case map_of node k of Some v \<Rightarrow> v | None \<Rightarrow> JNull)"

definition IsValidDoc :: "json \<Rightarrow> bool" where
  "IsValidDoc doc = (case doc of JStr s \<Rightarrow> s \<noteq> [] | _ \<Rightarrow> False)"

definition IsValidTest :: "json list \<Rightarrow> bool" where
  "IsValidTest tests = (length tests > 0)"

section \<open>The manifest\<close>

definition GetTable :: "Manifest \<Rightarrow> string \<Rightarrow> object \<times> error option" where
  "GetTable m tableID =
     (let c0 = [];
          c1 = (case map_of (Sources m) tableID of Some v \<Rightarrow> c0 @ [v] | None \<Rightarrow> c0);
          c2 = (case map_of (Models m) tableID of Some v \<Rightarrow> c1 @ [v] | None \<Rightarrow> c1);
          c3 = (case map_of (Seeds m) tableID of Some v \<Rightarrow> c2 @ [v] | None \<Rightarrow> c2);
          candidates = (case map_of (Snapshots m) tableID of Some v \<Rightarrow> c3 @ [v] | None \<Rightarrow> c3)
      in if length candidates = 0 then ([], Some (TableNotFound tableID))
         else if length candidates > 1 then ([], Some (DuplicateUniqueId tableID))
         else (candidates ! 0, None))"

text \<open>The loop of \<^verbatim>\<open>normalizeTable\<close> over the columns of a manifest node. The name of
  a column is read by an unchecked assertion.\<close>

fun normalizeColumns :: "(string \<Rightarrow> string) \<Rightarrow> (string \<times> json) list \<Rightarrow> object \<Rightarrow> object outcome" where
  "normalizeColumns ToLower [] normCols = Ret normCols"
| "normalizeColumns ToLower ((k, v) # rest) normCols =
     (case v of
        JObj col \<Rightarrow>
          (case getString col ''name'' of
             None \<Rightarrow> Panic
           | Some s \<Rightarrow>
               (let name = ToLower s;
                    col' = AList.update ''name'' (JStr name) col
                in normalizeColumns ToLower rest (AList.update name (JObj col') normCols)))
      | _ \<Rightarrow> normalizeColumns ToLower rest normCols)"

definition normalizeTable :: "(string \<Rightarrow> string) \<Rightarrow> char \<Rightarrow> object \<Rightarrow> object outcome" where
  "normalizeTable ToLower sep table =
     (case (case getObject table ''columns'' of
              Some cols \<Rightarrow>
                (case normalizeColumns ToLower cols [] of
                   Panic \<Rightarrow> Panic
                 | Ret normCols \<Rightarrow> Ret (AList.update ''columns'' (JObj normCols) table))
            | None \<Rightarrow> Ret table) of
        Panic \<Rightarrow> Panic
      | Ret table1 \<Rightarrow>
          (let table2 =
                 (case getString table1 ''original_file_path'' of
                    Some pathStr \<Rightarrow>
                      AList.update ''original_file_path'' (JStr (ToSlash sep pathStr)) table1
                  | None \<Rightarrow> table1);
               schema = stringOrEmpty table2 ''schema'';
               name = stringOrEmpty table2 ''name''
           in Ret (AList.update ''name'' (JStr (ToLower (schema @ ''.'' @ name))) table2)))"

text \<open>Reading the test index: \<^verbatim>\<open>tests[tableID]\<close> is the \<^verbatim>\<open>nil\<close> map for a missing
  table, and reading a \<^verbatim>\<open>nil\<close> map gives the \<^verbatim>\<open>nil\<close> slice.\<close>

type_synonym testindex = "(string \<times> (string \<times> json list) list) list"

definition testsOfTable :: "testindex \<Rightarrow> string \<Rightarrow> (string \<times> json list) list" where
  "testsOfTable tests tableID = (case map_of tests tableID of Some inner \<Rightarrow> inner | None \<Rightarrow> [])"

definition testsOfColumn :: "(string \<times> json list) list \<Rightarrow> string \<Rightarrow> json list" where
  "testsOfColumn inner columnName = (case map_of inner columnName of Some ts \<Rightarrow> ts | None \<Rightarrow> [])"

text \<open>\<^verbatim>\<open>tests[tableID][columnName] = append(tests[tableID][columnName], node)\<close>, after
  the inner map has been made when it was \<^verbatim>\<open>nil\<close>.\<close>

definition appendTest :: "testindex \<Rightarrow> string \<Rightarrow> string \<Rightarrow> json \<Rightarrow> testindex" where
  "appendTest tests tableID columnName node =
     (let tests1 = (if map_of tests tableID = None then AList.update tableID [] tests else tests);
          inner = testsOfTable tests1 tableID
      in AList.update tableID
           (AList.update columnName (testsOfColumn inner columnName @ [node]) inner) tests1)"

text \<open>A dependency read as a table identifier: \<^verbatim>\<open>if s, ok := x.(string); ok { tableID = s }\<close>,
  with \<^verbatim>\<open>tableID\<close> declared as the empty string.\<close>

definition dependencyID :: "json \<Rightarrow> string" where
  "dependencyID x = (case x of JStr s \<Rightarrow> s | _ \<Rightarrow> [])"

text \<open>\<^verbatim>\<open>if v, exists := m[k]; exists { if s, ok := v.(string); ok { columnName = s } }\<close>:
  the variable keeps its value unless the field is a string.\<close>

definition assignIfString :: "object \<Rightarrow> string \<Rightarrow> string \<Rightarrow> string" where
  "assignIfString m k columnName = (case map_of m k of Some (JStr s) \<Rightarrow> s | _ \<Rightarrow> columnName)"

text \<open>The resolution of the column name of a test node (lines 262 to 283).\<close>

definition testColumnName :: "object \<Rightarrow> object \<Rightarrow> string" where
  "testColumnName node testMeta =
     (let columnName = assignIfString node ''column_name'' []
      in if columnName = [] then
           (case getObject testMeta ''kwargs'' of
              Some kwargs \<Rightarrow>
                (let columnName1 = assignIfString kwargs ''column_name'' columnName
                 in if columnName1 = [] then assignIfString kwargs ''arg'' columnName1
                    else columnName1)
            | None \<Rightarrow> columnName)
         else columnName)"

text \<open>The \<^verbatim>\<open>case "test"\<close> of \<^verbatim>\<open>ManifestFromNodes\<close>; every \<^verbatim>\<open>continue\<close> leaves the
  index as it is.\<close>

definition attributeTest :: "(string \<Rightarrow> string) \<Rightarrow> object \<Rightarrow> testindex \<Rightarrow> testindex" where
  "attributeTest ToLower node tests =
     (if map_of node ''test_metadata'' = None then tests
      else
        (case getObject node ''depends_on'' of
           None \<Rightarrow> tests
         | Some dependsRaw \<Rightarrow>
             (case getArray dependsRaw ''nodes'' of
                None \<Rightarrow> tests
              | Some nodesDep \<Rightarrow>
                  (if length nodesDep = 0 then tests
                   else
                     (case getObject node ''test_metadata'' of
                        None \<Rightarrow> tests
                      | Some testMeta \<Rightarrow>
                          (let testName = stringOrEmpty testMeta ''name'';
                               tableID =
                                 (if testName = ''relationships''
                                  then dependencyID (nodesDep ! (length nodesDep - 1))
                                  else dependencyID (nodesDep ! 0));
                               columnName = testColumnName node testMeta
                           in if columnName = [] then tests
                              else appendTest tests tableID (ToLower columnName)
                                     (JObj node)))))))"

definition manifestStep :: "(string \<Rightarrow> string) \<Rightarrow> char \<Rightarrow> json \<Rightarrow> Manifest \<Rightarrow> Manifest outcome" where
  "manifestStep ToLower sep v m =
     (case v of
        JObj node \<Rightarrow>
          (let resourceType = stringOrEmpty node ''resource_type'';
               uniqueID = stringOrEmpty node ''unique_id''
           in if resourceType = ''source'' then
                (case normalizeTable ToLower sep node of
                   Panic \<Rightarrow> Panic
                 | Ret t \<Rightarrow> Ret (m\<lparr>Sources := AList.update uniqueID t (Sources m)\<rparr>))
              else if resourceType = ''model'' then
                (case normalizeTable ToLower sep node of
                   Panic \<Rightarrow> Panic
                 | Ret t \<Rightarrow> Ret (m\<lparr>Models := AList.update uniqueID t (Models m)\<rparr>))
              else if resourceType = ''seed'' then
                (case normalizeTable ToLower sep node of
                   Panic \<Rightarrow> Panic
                 | Ret t \<Rightarrow> Ret (m\<lparr>Seeds := AList.update uniqueID t (Seeds m)\<rparr>))
              else if resourceType = ''snapshot'' then
                (case normalizeTable ToLower sep node of
                   Panic \<Rightarrow> Panic
                 | Ret t \<Rightarrow> Ret (m\<lparr>Snapshots := AList.update uniqueID t (Snapshots m)\<rparr>))
              else if resourceType = ''test'' then
                Ret (m\<lparr>Tests := attributeTest ToLower node (Tests m)\<rparr>)
              else Ret m)
      | _ \<Rightarrow> Ret m)"

fun manifestLoop :: "(string \<Rightarrow> string) \<Rightarrow> char \<Rightarrow> (string \<times> json) list \<Rightarrow> Manifest \<Rightarrow> Manifest outcome" where
  "manifestLoop ToLower sep [] m = Ret m"
| "manifestLoop ToLower sep ((k, v) # rest) m =
     (case manifestStep ToLower sep v m of
        Panic \<Rightarrow> Panic
      | Ret m' \<Rightarrow> manifestLoop ToLower sep rest m')"

definition emptyManifest :: Manifest where
  "emptyManifest = \<lparr>Sources = [], Models = [], Seeds = [], Snapshots = [], Tests = []\<rparr>"

text \<open>The result is a pointer, \<open>None\<close> for \<^verbatim>\<open>nil\<close>; the error is always \<^verbatim>\<open>nil\<close>.\<close>

definition ManifestFromNodes ::
  "(string \<Rightarrow> string) \<Rightarrow> char \<Rightarrow> (string \<times> json) list \<Rightarrow> (Manifest option \<times> error option) outcome" where
  "ManifestFromNodes ToLower sep manifestNodes =
     (case manifestLoop ToLower sep manifestNodes emptyManifest of
        Panic \<Rightarrow> Panic
      | Ret m \<Rightarrow> Ret (Some m, None))"

section \<open>The catalog\<close>

text \<open>The loop of \<^verbatim>\<open>NewTableFromNode\<close> over the columns of a catalog node.\<close>

fun tableColumns :: "(string \<Rightarrow> string) \<Rightarrow> (string \<times> json) list \<Rightarrow> (string \<times> Column) list
                       \<Rightarrow> (string \<times> Column) list outcome" where
  "tableColumns ToLower [] cols = Ret cols"
| "tableColumns ToLower ((k, v) # rest) cols =
     (case v of
        JObj colNode \<Rightarrow>
          (case NewColumnFromNode ToLower colNode of
             Panic \<Rightarrow> Panic
           | Ret col \<Rightarrow> tableColumns ToLower rest (AList.update (c_Name col) col cols))
      | _ \<Rightarrow> tableColumns ToLower rest cols)"

definition NewTableFromNode :: "(string \<Rightarrow> string) \<Rightarrow> object \<Rightarrow> Manifest \<Rightarrow> (Table \<times> error option) outcome" where
  "NewTableFromNode ToLower node manifest =
     (case getString node ''unique_id'' of
        None \<Rightarrow> Ret (zeroTable, Some UniqueIdInvalid)
      | Some uniqueID \<Rightarrow>
          (case GetTable manifest uniqueID of
             (manifestTable, err) \<Rightarrow>
               (case err of
                  Some e \<Rightarrow> Ret (zeroTable, Some (UniqueIdNotInManifest uniqueID))
                | None \<Rightarrow>
                    (case (case getObject node ''columns'' of
                             Some columnsRaw \<Rightarrow> tableColumns ToLower columnsRaw []
                           | None \<Rightarrow> Ret []) of
                       Panic \<Rightarrow> Panic
                     | Ret cols \<Rightarrow>
                         (let origPath = stringOrEmpty manifestTable ''original_file_path''
                          in case getString manifestTable ''name'' of
                               None \<Rightarrow> Panic
                             | Some n \<Rightarrow>
                                 Ret (\<lparr>t_UniqueID = uniqueID, t_Name = ToLower n,
                                       t_OriginalFilePath = origPath, t_Columns = cols\<rparr>,
                                      None))))))"

fun catalogLoop :: "(string \<Rightarrow> string) \<Rightarrow> json list \<Rightarrow> Manifest \<Rightarrow> (string \<times> Table) list
                      \<Rightarrow> (Catalog \<times> error option) outcome" where
  "catalogLoop ToLower [] manifest tables = Ret (\<lparr>Tables = tables\<rparr>, None)"
| "catalogLoop ToLower (n # rest) manifest tables =
     (case n of
        JObj node \<Rightarrow>
          (case NewTableFromNode ToLower node manifest of
             Panic \<Rightarrow> Panic
           | Ret (table, err) \<Rightarrow>
               (case err of
                  Some e \<Rightarrow> Ret (zeroCatalog, Some e)
                | None \<Rightarrow>
                    catalogLoop ToLower rest manifest (AList.update (t_UniqueID table) table tables)))
      | _ \<Rightarrow> catalogLoop ToLower rest manifest tables)"

definition CatalogFromNodes :: "(string \<Rightarrow> string) \<Rightarrow> json list \<Rightarrow> Manifest \<Rightarrow> (Catalog \<times> error option) outcome" where
  "CatalogFromNodes ToLower nodes manifest = catalogLoop ToLower nodes manifest []"

section \<open>The path filter\<close>

text \<open>The inner loop of \<^verbatim>\<open>FilterTables\<close> over the filters: it stops at the first
  filter that is a prefix of the path.\<close>

fun matchesFilter :: "char \<Rightarrow> string \<Rightarrow> string list \<Rightarrow> bool" where
  "matchesFilter sep originalPath [] = False"
| "matchesFilter sep originalPath (filt # rest) =
     (let normalizedFilt = ToSlash sep filt
      in if HasPrefix originalPath normalizedFilt then True
         else matchesFilter sep originalPath rest)"

fun filterLoop :: "char \<Rightarrow> string list \<Rightarrow> (string \<times> Table) list \<Rightarrow> (string \<times> Table) list
                     \<Rightarrow> (string \<times> Table) list" where
  "filterLoop sep modelPathFilter [] filtered = filtered"
| "filterLoop sep modelPathFilter ((tableID, table) # rest) filtered =
     (let originalPath = ToSlash sep (t_OriginalFilePath table)
      in filterLoop sep modelPathFilter rest
           (if matchesFilter sep originalPath modelPathFilter
            then AList.update tableID table filtered else filtered))"

definition FilterTables :: "char \<Rightarrow> Catalog \<Rightarrow> string list \<Rightarrow> Catalog" where
  "FilterTables sep c modelPathFilter = \<lparr>Tables = filterLoop sep modelPathFilter (Tables c) []\<rparr>"

text \<open>A Go map is a reference. To state which map \<^verbatim>\<open>FilterTables\<close> writes, the same
  code is given once more over a store of table maps: a map is an index into the
  store, \<^verbatim>\<open>make\<close> adds a cell, \<^verbatim>\<open>filtered[id] = table\<close> updates the cell of
  \<^verbatim>\<open>filtered\<close>. The catalog is the reference of its \<^verbatim>\<open>Tables\<close> map.\<close>

type_synonym store = "(string \<times> Table) list list"

fun filterLoopS :: "char \<Rightarrow> string list \<Rightarrow> (string \<times> Table) list \<Rightarrow> nat \<Rightarrow> store \<Rightarrow> store" where
  "filterLoopS sep modelPathFilter [] filtered s = s"
| "filterLoopS sep modelPathFilter ((tableID, table) # rest) filtered s =
     (let originalPath = ToSlash sep (t_OriginalFilePath table)
      in filterLoopS sep modelPathFilter rest filtered
           (if matchesFilter sep originalPath modelPathFilter
            then s[filtered := AList.update tableID table (s ! filtered)] else s))"

definition FilterTablesS :: "char \<Rightarrow> store \<Rightarrow> nat \<Rightarrow> string list \<Rightarrow> store \<times> nat" where
  "FilterTablesS sep s c modelPathFilter =
     (let filtered = length s;
          s1 = s @ [[]]
      in (filterLoopS sep modelPathFilter (s ! c) filtered s1, filtered))"

section \<open>Loading the two documents\<close>

text \<open>What the file system and the decoder give for one of the two files:
  \<^verbatim>\<open>os.Stat\<close> reports that it does not exist, \<^verbatim>\<open>os.ReadFile\<close> fails, the bytes are
  not JSON, or the decoded value. \<^verbatim>\<open>json.Unmarshal\<close> into a
  \<^verbatim>\<open>map[string]interface{}\<close> accepts an object and \<^verbatim>\<open>null\<close> (the map stays
  \<^verbatim>\<open>nil\<close>) and fails on every other value.\<close>

datatype artifact = NotExist | Unreadable | Undecodable | Decoded json

definition unmarshalMap :: "json \<Rightarrow> object option" where
  "unmarshalMap j = (case j of JObj m \<Rightarrow> Some m | JNull \<Rightarrow> Some [] | _ \<Rightarrow> None)"

text \<open>\<^verbatim>\<open>for k, v := range src { nodes[k] = v }\<close>\<close>

fun copyInto :: "(string \<times> json) list \<Rightarrow> object \<Rightarrow> object" where
  "copyInto [] nodes = nodes"
| "copyInto ((k, v) # rest) nodes = copyInto rest (AList.update k v nodes)"

text \<open>\<^verbatim>\<open>checkManifestVersion\<close> only writes a warning to the log and is left out, as is
  every other call of \<^verbatim>\<open>log.Printf\<close>.\<close>

definition loadManifest :: "(string \<Rightarrow> string) \<Rightarrow> char \<Rightarrow> artifact \<Rightarrow> (Manifest option \<times> error option) outcome" where
  "loadManifest ToLower sep file =
     (case file of
        NotExist \<Rightarrow> Ret (None, Some ManifestNotFound)
      | Unreadable \<Rightarrow> Ret (None, Some ReadFileError)
      | Undecodable \<Rightarrow> Ret (None, Some UnmarshalError)
      | Decoded j \<Rightarrow>
          (case unmarshalMap j of
             None \<Rightarrow> Ret (None, Some UnmarshalError)
           | Some manifestJSON \<Rightarrow>
               (let n0 = [];
                    n1 = (case getObject manifestJSON ''sources'' of
                            Some sources \<Rightarrow> copyInto sources n0 | None \<Rightarrow> n0);
                    nodes = (case getObject manifestJSON ''nodes'' of
                               Some n \<Rightarrow> copyInto n n1 | None \<Rightarrow> n1)
                in ManifestFromNodes ToLower sep nodes)))"

text \<open>The loop of \<^verbatim>\<open>loadCatalog\<close> over one group; the identifiers that start with
  \<^verbatim>\<open>test.\<close> are skipped.\<close>

fun appendGroup :: "(string \<times> json) list \<Rightarrow> json list \<Rightarrow> json list" where
  "appendGroup [] catalogNodes = catalogNodes"
| "appendGroup ((nodeID, node) # rest) catalogNodes =
     (if HasPrefix nodeID ''test.'' then appendGroup rest catalogNodes
      else appendGroup rest (catalogNodes @ [node]))"

text \<open>The nodes that \<^verbatim>\<open>loadCatalog\<close> collects from the groups \<^verbatim>\<open>sources\<close> and
  \<^verbatim>\<open>nodes\<close>, in this order.\<close>

definition catalogNodesOf :: "object \<Rightarrow> json list" where
  "catalogNodesOf catalogJSON =
     (let n0 = [];
          n1 = (case getObject catalogJSON ''sources'' of
                  Some grp \<Rightarrow> appendGroup grp n0 | None \<Rightarrow> n0)
      in case getObject catalogJSON ''nodes'' of
           Some grp \<Rightarrow> appendGroup grp n1 | None \<Rightarrow> n1)"

definition loadCatalog :: "(string \<Rightarrow> string) \<Rightarrow> artifact \<Rightarrow> Manifest \<Rightarrow> (Catalog \<times> error option) outcome" where
  "loadCatalog ToLower file manifest =
     (case file of
        NotExist \<Rightarrow> Ret (zeroCatalog, Some CatalogNotFound)
      | Unreadable \<Rightarrow> Ret (zeroCatalog, Some ReadFileError)
      | Undecodable \<Rightarrow> Ret (zeroCatalog, Some UnmarshalError)
      | Decoded j \<Rightarrow>
          (case unmarshalMap j of
             None \<Rightarrow> Ret (zeroCatalog, Some UnmarshalError)
           | Some catalogJSON \<Rightarrow>
               CatalogFromNodes ToLower (catalogNodesOf catalogJSON) manifest))"

text \<open>The annotation pass of \<^verbatim>\<open>loadFiles\<close>. The manifest table is the first hit of the
  chain \<^verbatim>\<open>Sources\<close>, \<^verbatim>\<open>Models\<close>, \<^verbatim>\<open>Seeds\<close>, \<^verbatim>\<open>Snapshots\<close>.\<close>

definition manifestTableFor :: "Manifest \<Rightarrow> string \<Rightarrow> object option" where
  "manifestTableFor manifest tableID =
     (case map_of (Sources manifest) tableID of
        Some v \<Rightarrow> Some v
      | None \<Rightarrow>
          (case map_of (Models manifest) tableID of
             Some v \<Rightarrow> Some v
           | None \<Rightarrow>
               (case map_of (Seeds manifest) tableID of
                  Some v \<Rightarrow> Some v
                | None \<Rightarrow> map_of (Snapshots manifest) tableID)))"

definition annotateColumn ::
  "object option \<Rightarrow> (string \<times> json list) list \<Rightarrow> string \<Rightarrow> Column \<Rightarrow> Column" where
  "annotateColumn manifestColumns manifestTableTests colName col =
     (let colInfo = (case manifestColumns of
                       Some mc \<Rightarrow> getObject mc colName
                     | None \<Rightarrow> None);
          desc = (case colInfo of Some ci \<Rightarrow> index ci ''description'' | None \<Rightarrow> JNull);
          testsForCol = testsOfColumn manifestTableTests colName
      in col\<lparr>c_Doc := IsValidDoc desc, c_Test := IsValidTest testsForCol\<rparr>)"

text \<open>The loop visits the columns of the table and stores each one back under its
  key: \<^verbatim>\<open>table.Columns[colName] = col\<close>.\<close>

fun annotateColumns ::
  "object option \<Rightarrow> (string \<times> json list) list \<Rightarrow> (string \<times> Column) list
     \<Rightarrow> (string \<times> Column) list \<Rightarrow> (string \<times> Column) list" where
  "annotateColumns manifestColumns manifestTableTests [] columns = columns"
| "annotateColumns manifestColumns manifestTableTests ((colName, col) # rest) columns =
     annotateColumns manifestColumns manifestTableTests rest
       (AList.update colName
          (annotateColumn manifestColumns manifestTableTests colName col) columns)"

definition annotateTable :: "Manifest \<Rightarrow> string \<Rightarrow> Table \<Rightarrow> Table" where
  "annotateTable manifest tableID table =
     (let manifestTable = manifestTableFor manifest tableID;
          manifestColumns = (case manifestTable of
                               Some mt \<Rightarrow> getObject mt ''columns''
                             | None \<Rightarrow> None);
          manifestTableTests = testsOfTable (Tests manifest) tableID
      in table\<lparr>t_Columns :=
                 annotateColumns manifestColumns manifestTableTests
                   (t_Columns table) (t_Columns table)\<rparr>)"

fun annotateTables ::
  "Manifest \<Rightarrow> (string \<times> Table) list \<Rightarrow> (string \<times> Table) list \<Rightarrow> (string \<times> Table) list" where
  "annotateTables manifest [] tables = tables"
| "annotateTables manifest ((tableID, table) # rest) tables =
     annotateTables manifest rest
       (AList.update tableID (annotateTable manifest tableID table) tables)"

text \<open>\<^verbatim>\<open>loadFiles\<close>, given what the two files hold. A \<^verbatim>\<open>nil\<close> manifest without an
  error would be dereferenced; \<^verbatim>\<open>ManifestFromNodes\<close> never returns one.\<close>

definition loadFiles :: "(string \<Rightarrow> string) \<Rightarrow> char \<Rightarrow> artifact \<Rightarrow> artifact \<Rightarrow> (Catalog \<times> error option) outcome" where
  "loadFiles ToLower sep manifestFile catalogFile =
     (case loadManifest ToLower sep manifestFile of
        Panic \<Rightarrow> Panic
      | Ret (mp, err) \<Rightarrow>
          (case err of
             Some e \<Rightarrow> Ret (zeroCatalog, Some e)
           | None \<Rightarrow>
               (case mp of
                  None \<Rightarrow> Panic
                | Some manifest \<Rightarrow>
                    (case loadCatalog ToLower catalogFile manifest of
                       Panic \<Rightarrow> Panic
                     | Ret (catalog, err') \<Rightarrow>
                         (case err' of
                            Some e \<Rightarrow> Ret (zeroCatalog, Some e)
                          | None \<Rightarrow>
                              Ret (catalog\<lparr>Tables := annotateTables manifest (Tables catalog)
                                                        (Tables catalog)\<rparr>,
                                   None))))))"

section \<open>The computation\<close>

text \<open>\<^verbatim>\<open>json.MarshalIndent\<close> returns an error for a float that is NaN or infinite;
  \<^verbatim>\<open>os.WriteFile\<close> succeeds or not, which is the parameter \<open>writeOk\<close>.\<close>

definition unsupportedValue :: "float64 \<Rightarrow> bool" where
  "unsupportedValue f = (case f of Fin q \<Rightarrow> False | _ \<Rightarrow> True)"

definition marshalFails :: "JSONReport \<Rightarrow> bool" where
  "marshalFails report =
     (unsupportedValue (jr_Coverage report) \<or>
      list_ex (\<lambda>t. unsupportedValue (tr_Coverage t) \<or>
                   list_ex (\<lambda>c. unsupportedValue (cr_Coverage c)) (tr_Columns t))
              (jr_Tables report))"

definition writeCoverageReport :: "bool \<Rightarrow> JSONReport \<Rightarrow> error option" where
  "writeCoverageReport writeOk report =
     (if marshalFails report then Some MarshalError
      else if writeOk then None else Some WriteFileError)"

text \<open>\<^verbatim>\<open>doCompute\<close>. The detailed report that is printed on the console is left out.\<close>

definition doCompute ::
  "(string \<Rightarrow> string) \<Rightarrow> char \<Rightarrow> artifact \<Rightarrow> artifact \<Rightarrow> bool \<Rightarrow> string \<Rightarrow> string list \<Rightarrow> error option outcome" where
  "doCompute ToLower sep manifestFile catalogFile writeOk covType modelPathFilter =
     (case loadFiles ToLower sep manifestFile catalogFile of
        Panic \<Rightarrow> Panic
      | Ret (catalog, err) \<Rightarrow>
          (case err of
             Some e \<Rightarrow> Ret (Some e)
           | None \<Rightarrow>
               (if length modelPathFilter > 0 then
                  (let catalog1 = FilterTables sep catalog modelPathFilter
                   in if length (Tables catalog1) = 0 then Ret (Some NoTablesAfterFilter)
                      else Ret (writeCoverageReport writeOk
                                  (computeJSONReport catalog1 covType)))
                else Ret (writeCoverageReport writeOk (computeJSONReport catalog covType)))))"

section \<open>Invariant of the manifest\<close>

text \<open>Every table of a partition has a string \<^verbatim>\<open>name\<close>: \<^verbatim>\<open>normalizeTable\<close> stores
  one in every node that enters a partition.\<close>

definition tablesNamed :: "(string \<times> object) list \<Rightarrow> bool" where
  "tablesNamed tbls = list_all (\<lambda>(k, t). getString t ''name'' \<noteq> None) tbls"

definition manifestNamed :: "Manifest \<Rightarrow> bool" where
  "manifestNamed m =
     (tablesNamed (Sources m) \<and> tablesNamed (Models m) \<and>
      tablesNamed (Seeds m) \<and> tablesNamed (Snapshots m))"

section \<open>Where a node is filed\<close>

text \<open>The key under which the \<^verbatim>\<open>case "test"\<close> of \<^verbatim>\<open>ManifestFromNodes\<close> files a
  node, \<open>None\<close> on every \<^verbatim>\<open>continue\<close>: the same tests as in \<open>attributeTest\<close>, without
  the index. It serves to state what the loop has filed after any number of nodes.\<close>

definition testKey :: "(string \<Rightarrow> string) \<Rightarrow> object \<Rightarrow> (string \<times> string) option" where
  "testKey ToLower node =
     (if map_of node ''test_metadata'' = None then None
      else
        (case getObject node ''depends_on'' of
           None \<Rightarrow> None
         | Some dependsRaw \<Rightarrow>
             (case getArray dependsRaw ''nodes'' of
                None \<Rightarrow> None
              | Some nodesDep \<Rightarrow>
                  (if length nodesDep = 0 then None
                   else
                     (case getObject node ''test_metadata'' of
                        None \<Rightarrow> None
                      | Some testMeta \<Rightarrow>
                          (let testName = stringOrEmpty testMeta ''name'';
                               tableID =
                                 (if testName = ''relationships''
                                  then dependencyID (nodesDep ! (length nodesDep - 1))
                                  else dependencyID (nodesDep ! 0));
                               columnName = testColumnName node testMeta
                           in if columnName = [] then None
                              else Some (tableID, ToLower columnName)))))))"

definition filedUnder :: "(string \<Rightarrow> string) \<Rightarrow> json \<Rightarrow> (string \<times> string) option" where
  "filedUnder ToLower v =
     (case v of
        JObj node \<Rightarrow>
          (if stringOrEmpty node ''resource_type'' = ''test'' then testKey ToLower node else None)
      | _ \<Rightarrow> None)"

text \<open>The entries of a list of catalog nodes that \<^verbatim>\<open>CatalogFromNodes\<close> looks at.\<close>

definition isObject :: "json \<Rightarrow> bool" where
  "isObject v = (case v of JObj m \<Rightarrow> True | _ \<Rightarrow> False)"

section \<open>Properties of the report\<close>

lemma reportColumns_counts:
  "reportColumns covType cs (cols, c, t) = (cols', c', t') \<Longrightarrow>
     t' = t + length cs \<and> c' \<le> c + length cs \<and> c \<le> c'"
proof (induction cs arbitrary: cols c t)
  case Nil
  then show ?case by simp
next
  case (Cons a cs)
  obtain k col where a: "a = (k, col)" by (cases a)
  have le: "colCovered covType col \<le> 1" by (simp add: colCovered_def)
  from Cons.prems a
  have "reportColumns covType cs
          (cols @ [\<lparr>cr_Name = c_Name col, cr_Covered = colCovered covType col, cr_Total = 1,
                     cr_Coverage = fdiv (colCovered covType col) 1\<rparr>],
           c + colCovered covType col, t + 1) = (cols', c', t')"
    by (simp add: Let_def)
  from Cons.IH [OF this] le show ?case by simp
qed

lemma reportTables_tables:
  "fst (reportTables covType ts (acc, c, t)) = acc @ map (\<lambda>(k, table). reportTable covType table) ts"
  by (induction ts arbitrary: acc c t) (auto simp: Let_def)

lemma computeJSONReport_tables:
  "jr_Tables (computeJSONReport catalog covType) =
     map (\<lambda>(k, table). reportTable covType table) (Tables catalog)"
proof -
  obtain tables c t where r: "reportTables covType (Tables catalog) ([], 0, 0) = (tables, c, t)"
    by (cases "reportTables covType (Tables catalog) ([], 0, 0)")
  have "tables = map (\<lambda>(k, table). reportTable covType table) (Tables catalog)"
    using reportTables_tables [of covType "Tables catalog" "[]" 0 0] r by simp
  with r show ?thesis by (simp add: computeJSONReport_def)
qed

lemma reportTable_no_columns:
  "t_Columns table = [] \<Longrightarrow>
     tr_Total (reportTable covType table) = 0 \<and> tr_Coverage (reportTable covType table) = NaN"
  by (simp add: reportTable_def fdiv_def)

lemma reportTable_with_columns:
  assumes "t_Columns table \<noteq> []"
  shows "\<exists>q. tr_Coverage (reportTable covType table) = Fin q \<and> 0 \<le> q \<and> q \<le> 1"
proof -
  obtain cols c t where r: "reportColumns covType (t_Columns table) ([], 0, 0) = (cols, c, t)"
    by (cases "reportColumns covType (t_Columns table) ([], 0, 0)")
  from reportColumns_counts [OF r] assms have t: "t = length (t_Columns table)" "c \<le> t" "0 < t"
    by auto
  have "tr_Coverage (reportTable covType table) = Fin (of_nat c / of_nat t)"
    using r t by (simp add: reportTable_def fdiv_def)
  moreover have "(0::rat) \<le> of_nat c / of_nat t" by simp
  moreover have "(of_nat c / of_nat t :: rat) \<le> 1" using t by simp
  ultimately show ?thesis by blast
qed

text \<open>A report that holds such a table is not written: \<^verbatim>\<open>json.MarshalIndent\<close>
  rejects the NaN, and \<^verbatim>\<open>doCompute\<close> returns its error.\<close>

lemma doCompute_zero_column_table:
  "doCompute asciiToLower CHR ''/''
     (Decoded (JObj [(''nodes'', JObj [(''model.p.t'',
        JObj [(''resource_type'', JStr ''model''), (''unique_id'', JStr ''model.p.t''),
              (''schema'', JStr ''dev''), (''name'', JStr ''t'')])])]))
     (Decoded (JObj [(''nodes'', JObj [(''model.p.t'',
        JObj [(''unique_id'', JStr ''model.p.t''), (''columns'', JObj [])])])]))
     True CoverageTypeDoc []
   = Ret (Some MarshalError)"
  by code_simp

text \<open>
  Claim C1: every table of the report has a coverage between 0 and 1, and the
  coverage 0 when its total is 0. The code divides \<^verbatim>\<open>float64(tableCovered)\<close> by
  \<^verbatim>\<open>float64(tableTotal)\<close> without the guard that the global coverage has: for a
  catalog whose one table has no column the report holds one table with total 0 and
  coverage NaN, which is neither 0 nor within the bounds.
\<close>

theorem C1_zero_column_table_coverage_is_NaN:
  "map (\<lambda>r. (tr_Total r, tr_Coverage r))
     (jr_Tables (computeJSONReport
        \<lparr>Tables = [(''model.p.t'',
            \<lparr>t_UniqueID = ''model.p.t'', t_Name = ''dev.t'',
             t_OriginalFilePath = ''models/t.sql'', t_Columns = []\<rparr>)]\<rparr>
        CoverageTypeDoc))
   = [(0, NaN)]"
  by (simp add: computeJSONReport_tables reportTable_def fdiv_def)

section \<open>Unchecked type assertions\<close>

lemma normalizeColumns_panics:
  "(k, JObj col) \<in> set cols \<Longrightarrow> getString col ''name'' = None \<Longrightarrow>
     normalizeColumns ToLower cols acc = Panic"
proof (induction cols arbitrary: acc)
  case Nil
  then show ?case by simp
next
  case (Cons a cols)
  obtain k' v where a: "a = (k', v)" by (cases a)
  show ?case
  proof (cases "a = (k, JObj col)")
    case True
    with Cons.prems show ?thesis by simp
  next
    case False
    with Cons.prems have "(k, JObj col) \<in> set cols" by simp
    from Cons.IH [OF this Cons.prems(2)] a show ?thesis
      by (simp add: Let_def split: json.split option.split)
  qed
qed

lemma tableColumns_panics:
  "(k, JObj col) \<in> set cols \<Longrightarrow> getString col ''name'' = None \<Longrightarrow>
     tableColumns ToLower cols acc = Panic"
proof (induction cols arbitrary: acc)
  case Nil
  then show ?case by simp
next
  case (Cons a cols)
  obtain k' v where a: "a = (k', v)" by (cases a)
  show ?case
  proof (cases "a = (k, JObj col)")
    case True
    with Cons.prems show ?thesis by (simp add: NewColumnFromNode_def)
  next
    case False
    with Cons.prems have "(k, JObj col) \<in> set cols" by simp
    from Cons.IH [OF this Cons.prems(2)] a show ?thesis
      by (simp add: Let_def split: json.split outcome.split)
  qed
qed

text \<open>
  Claim C10: three constructions abort by a runtime panic instead of returning an
  error. \<^verbatim>\<open>NewColumnFromNode\<close> panics when the \<^verbatim>\<open>name\<close> of the catalog column is
  absent or not a string; \<^verbatim>\<open>normalizeTable\<close> panics when a column of the manifest
  node (a column that is an object) has such a \<^verbatim>\<open>name\<close>; \<^verbatim>\<open>NewTableFromNode\<close>
  panics when the identifier is resolved by \<^verbatim>\<open>GetTable\<close> and the \<^verbatim>\<open>name\<close> of the
  resolved manifest table is absent or not a string. \<open>getString x ''name'' = None\<close> says
  that the field is absent or not a string.
\<close>

theorem C10_unchecked_name_assertions_panic:
  "(getString colNode ''name'' = None \<longrightarrow> NewColumnFromNode ToLower colNode = Panic) \<and>
   (getObject table ''columns'' = Some cols \<and> (k, JObj col) \<in> set cols \<and>
      getString col ''name'' = None \<longrightarrow> normalizeTable ToLower sep table = Panic) \<and>
   (getString node ''unique_id'' = Some uniqueID \<and>
      GetTable manifest uniqueID = (manifestTable, None) \<and>
      getString manifestTable ''name'' = None \<longrightarrow> NewTableFromNode ToLower node manifest = Panic)"
proof (intro conjI impI)
  assume "getString colNode ''name'' = None"
  then show "NewColumnFromNode ToLower colNode = Panic" by (simp add: NewColumnFromNode_def)
next
  assume "getObject table ''columns'' = Some cols \<and> (k, JObj col) \<in> set cols \<and>
      getString col ''name'' = None"
  then have "getObject table ''columns'' = Some cols" and "normalizeColumns ToLower cols [] = Panic"
    by (simp_all add: normalizeColumns_panics [of k col cols])
  then show "normalizeTable ToLower sep table = Panic"
    by (simp add: normalizeTable_def)
next
  assume "getString node ''unique_id'' = Some uniqueID \<and>
      GetTable manifest uniqueID = (manifestTable, None) \<and>
      getString manifestTable ''name'' = None"
  then show "NewTableFromNode ToLower node manifest = Panic"
    by (simp add: NewTableFromNode_def split: option.split outcome.split)
qed

theorem C10_unchecked_name_assertions_panic_witness:
  "getString [(''type'', JStr ''int'')] ''name'' = None \<and>
   NewColumnFromNode asciiToLower [(''type'', JStr ''int'')] = Panic \<and>
   getObject [(''columns'', JObj [(''id'', JObj [(''name'', JNum 1)])])] ''columns''
     = Some [(''id'', JObj [(''name'', JNum 1)])] \<and>
   normalizeTable asciiToLower CHR ''/'' [(''columns'', JObj [(''id'', JObj [(''name'', JNum 1)])])] = Panic \<and>
   GetTable \<lparr>Sources = [], Models = [(''model.p.t'', [(''schema'', JStr ''dev'')])], Seeds = [],
             Snapshots = [], Tests = []\<rparr> ''model.p.t'' = ([(''schema'', JStr ''dev'')], None) \<and>
   NewTableFromNode asciiToLower [(''unique_id'', JStr ''model.p.t'')]
     \<lparr>Sources = [], Models = [(''model.p.t'', [(''schema'', JStr ''dev'')])], Seeds = [],
             Snapshots = [], Tests = []\<rparr> = Panic"
  using C10_unchecked_name_assertions_panic
    [where ToLower = asciiToLower, of "[(''type'', JStr ''int'')]"
        "[(''columns'', JObj [(''id'', JObj [(''name'', JNum 1)])])]"
        "[(''id'', JObj [(''name'', JNum 1)])]" "''id''" "[(''name'', JNum 1)]" "CHR ''/''"
        "[(''unique_id'', JStr ''model.p.t'')]" "''model.p.t''"
        "\<lparr>Sources = [], Models = [(''model.p.t'', [(''schema'', JStr ''dev'')])], Seeds = [],
             Snapshots = [], Tests = []\<rparr>" "[(''schema'', JStr ''dev'')]"]
  by (simp add: getString_def getObject_def GetTable_def)

section \<open>The errors that are returned\<close>

lemma NewTableFromNode_errors:
  "NewTableFromNode ToLower node manifest = Ret (t, Some e) \<Longrightarrow>
     e = UniqueIdInvalid \<or> (\<exists>uniqueID. e = UniqueIdNotInManifest uniqueID)"
  by (auto simp: NewTableFromNode_def Let_def split: option.splits prod.splits outcome.splits)

lemma catalogLoop_errors:
  "catalogLoop ToLower nodes manifest tables = Ret (c, Some e) \<Longrightarrow>
     e = UniqueIdInvalid \<or> (\<exists>uniqueID. e = UniqueIdNotInManifest uniqueID)"
proof (induction nodes arbitrary: tables)
  case Nil
  then show ?case by simp
next
  case (Cons n nodes)
  show ?case
  proof (cases n)
    case (JObj node)
    show ?thesis
    proof (cases "NewTableFromNode ToLower node manifest")
      case Panic
      with Cons.prems JObj show ?thesis by simp
    next
      case (Ret r)
      obtain table err where r: "r = (table, err)" by (cases r)
      show ?thesis
      proof (cases err)
        case None
        with Cons.prems JObj Ret r Cons.IH show ?thesis by simp
      next
        case (Some e')
        with Cons.prems JObj Ret r have "e = e'" by simp
        with NewTableFromNode_errors Ret r Some show ?thesis by blast
      qed
    qed
  qed (use Cons in simp_all)
qed

lemma loadManifest_errors:
  "loadManifest ToLower sep manifestFile = Ret (mp, Some e) \<Longrightarrow>
     e = ManifestNotFound \<or> e = ReadFileError \<or> e = UnmarshalError"
  by (auto simp: loadManifest_def ManifestFromNodes_def Let_def
           split: artifact.splits option.splits outcome.splits)

lemma loadCatalog_errors:
  "loadCatalog ToLower catalogFile manifest = Ret (c, Some e) \<Longrightarrow>
     e = CatalogNotFound \<or> e = ReadFileError \<or> e = UnmarshalError \<or>
     e = UniqueIdInvalid \<or> (\<exists>uniqueID. e = UniqueIdNotInManifest uniqueID)"
  by (auto simp: loadCatalog_def CatalogFromNodes_def
           split: artifact.splits option.splits dest: catalogLoop_errors)

lemma loadFiles_errors:
  assumes "loadFiles ToLower sep manifestFile catalogFile = Ret (c, Some e)"
  shows "e = ManifestNotFound \<or> e = CatalogNotFound \<or> e = ReadFileError \<or>
         e = UnmarshalError \<or> e = UniqueIdInvalid \<or>
         (\<exists>uniqueID. e = UniqueIdNotInManifest uniqueID)"
proof (cases "loadManifest ToLower sep manifestFile")
  case Panic
  with assms show ?thesis by (simp add: loadFiles_def)
next
  case (Ret r)
  obtain mp err where r: "r = (mp, err)" by (cases r)
  show ?thesis
  proof (cases err)
    case (Some e')
    with assms Ret r have "e = e'" by (simp add: loadFiles_def)
    with loadManifest_errors Ret r Some show ?thesis by blast
  next
    case None
    note errNone = this
    show ?thesis
    proof (cases mp)
      case None
      with assms Ret r errNone show ?thesis by (simp add: loadFiles_def)
    next
      case (Some manifest)
      note mpSome = this
      show ?thesis
      proof (cases "loadCatalog ToLower catalogFile manifest")
        case Panic
        with assms Ret r errNone mpSome show ?thesis by (simp add: loadFiles_def)
      next
        case cat: (Ret r')
        obtain c' err' where r': "r' = (c', err')" by (cases r')
        show ?thesis
        proof (cases err')
          case None
          with assms Ret r errNone mpSome cat r' show ?thesis by (simp add: loadFiles_def)
        next
          case (Some e')
          with assms Ret r errNone mpSome cat r' have "e = e'" by (simp add: loadFiles_def)
          with loadCatalog_errors cat r' Some show ?thesis by blast
        qed
      qed
    qed
  qed
qed

section \<open>Resolving a table in the manifest\<close>

text \<open>\<^verbatim>\<open>GetTable\<close> by itself: an identifier that is a key of two or more partitions gives
  the error "en double" and no table, an identifier of no partition the error "non
  trouvee", and a table that is returned is the one of the only partition that has the
  identifier.\<close>

lemma GetTable_duplicate:
  assumes "1 < length (filter (\<lambda>tables. map_of tables tableID \<noteq> None)
                         [Sources m, Models m, Seeds m, Snapshots m])"
  shows "GetTable m tableID = ([], Some (DuplicateUniqueId tableID))"
  using assms by (auto simp: GetTable_def split: option.splits if_splits)

lemma GetTable_absent:
  assumes "map_of (Sources m) tableID = None" and "map_of (Models m) tableID = None"
    and "map_of (Seeds m) tableID = None" and "map_of (Snapshots m) tableID = None"
  shows "GetTable m tableID = ([], Some (TableNotFound tableID))"
  using assms by (simp add: GetTable_def)

lemma GetTable_resolved:
  assumes "GetTable m tableID = (manifestTable, None)"
  shows "map_of (Sources m) tableID = Some manifestTable \<or>
         map_of (Models m) tableID = Some manifestTable \<or>
         map_of (Seeds m) tableID = Some manifestTable \<or>
         map_of (Snapshots m) tableID = Some manifestTable"
  using assms by (auto simp: GetTable_def Let_def split: option.splits if_splits)

text \<open>The annotation pass of \<^verbatim>\<open>loadFiles\<close> resolves the identifier once more, by the
  chain of lookups that takes the first hit. For an identifier that \<^verbatim>\<open>GetTable\<close>
  resolved it finds the same table.\<close>

lemma manifestTableFor_resolved:
  assumes "GetTable m tableID = (manifestTable, None)"
  shows "manifestTableFor m tableID = Some manifestTable"
  using assms
  by (auto simp: GetTable_def manifestTableFor_def Let_def split: option.splits if_splits)

text \<open>The only caller of \<^verbatim>\<open>GetTable\<close> is \<^verbatim>\<open>NewTableFromNode\<close>. It does not return
  the error it receives: whichever error \<^verbatim>\<open>GetTable\<close> gave, its own error is
  "unique_id ... non trouve dans le manifest". The error "en double" therefore leaves
  neither \<^verbatim>\<open>CatalogFromNodes\<close> nor \<^verbatim>\<open>doCompute\<close>, for any input.\<close>

lemma NewTableFromNode_unresolved:
  assumes "getString node ''unique_id'' = Some tableID"
    and "snd (GetTable m tableID) = Some e"
  shows "NewTableFromNode ToLower node m = Ret (zeroTable, Some (UniqueIdNotInManifest tableID))"
  using assms by (cases "GetTable m tableID") (simp add: NewTableFromNode_def)

lemma CatalogFromNodes_never_reports_duplicate:
  "CatalogFromNodes ToLower nodes manifest \<noteq> Ret (c, Some (DuplicateUniqueId tableID))"
proof
  assume "CatalogFromNodes ToLower nodes manifest = Ret (c, Some (DuplicateUniqueId tableID))"
  then have "catalogLoop ToLower nodes manifest [] = Ret (c, Some (DuplicateUniqueId tableID))"
    by (simp add: CatalogFromNodes_def)
  from catalogLoop_errors [OF this] show False by auto
qed

lemma doCompute_never_reports_duplicate:
  "doCompute ToLower sep manifestFile catalogFile writeOk covType modelPathFilter
     \<noteq> Ret (Some (DuplicateUniqueId tableID))"
proof (cases "loadFiles ToLower sep manifestFile catalogFile")
  case Panic
  then show ?thesis by (simp add: doCompute_def)
next
  case (Ret r)
  obtain c err where r: "r = (c, err)" by (cases r)
  show ?thesis
  proof (cases err)
    case None
    with Ret r show ?thesis
      by (simp add: doCompute_def Let_def writeCoverageReport_def)
  next
    case (Some e)
    from loadFiles_errors Ret r Some have "e \<noteq> DuplicateUniqueId tableID" by blast
    with Ret r Some show ?thesis by (simp add: doCompute_def)
  qed
qed

text \<open>When the two declarations of an identifier have the same key, one in
  \<^verbatim>\<open>sources\<close> and one in \<^verbatim>\<open>nodes\<close>, no partition receives it twice:
  \<^verbatim>\<open>loadManifest\<close> copies \<^verbatim>\<open>sources\<close> and then \<^verbatim>\<open>nodes\<close> into one map, the model
  replaces the source, and the run goes on with the model.\<close>

lemma duplicate_under_one_key:
  "loadFiles asciiToLower CHR ''/''
     (Decoded (JObj [
        (''sources'', JObj [(''x.p.orders'', JObj [(''resource_type'', JStr ''source''),
            (''unique_id'', JStr ''x.p.orders''), (''schema'', JStr ''raw'')])]),
        (''nodes'', JObj [(''x.p.orders'', JObj [(''resource_type'', JStr ''model''),
            (''unique_id'', JStr ''x.p.orders''), (''schema'', JStr ''dev'')])])]))
     (Decoded (JObj [(''nodes'', JObj [(''x.p.orders'',
        JObj [(''unique_id'', JStr ''x.p.orders'')])])]))
   = Ret (\<lparr>Tables = [(''x.p.orders'',
            \<lparr>t_UniqueID = ''x.p.orders'', t_Name = ''dev.'',
             t_OriginalFilePath = [], t_Columns = []\<rparr>)]\<rparr>, None)"
  by code_simp

text \<open>
  Claim C4: when an identifier occurs in more than one of the four partitions of the
  manifest, resolving it during the reconciliation fails with the error "unique_id ...
  en double". The code does not do this. In the run below the manifest declares the
  identifier \<^verbatim>\<open>x.p.orders\<close> under two keys, as a source and as a model. The manifest
  that \<^verbatim>\<open>loadManifest\<close> returns has it in \<^verbatim>\<open>Sources\<close> and in \<^verbatim>\<open>Models\<close>, and
  \<^verbatim>\<open>GetTable\<close> returns the error "en double" for it; but \<^verbatim>\<open>NewTableFromNode\<close>
  replaces this error, and the run ends with "unique_id x.p.orders non trouve dans le
  manifest", for an identifier that the manifest has twice.
\<close>

theorem C4_duplicate_is_reported_as_not_found:
  "loadManifest asciiToLower CHR ''/''
     (Decoded (JObj [
        (''sources'', JObj [(''a'', JObj [(''resource_type'', JStr ''source''),
                                         (''unique_id'', JStr ''x.p.orders'')])]),
        (''nodes'', JObj [(''b'', JObj [(''resource_type'', JStr ''model''),
                                       (''unique_id'', JStr ''x.p.orders'')])])]))
   = Ret (Some \<lparr>Sources = [(''x.p.orders'', [(''resource_type'', JStr ''source''),
                                              (''unique_id'', JStr ''x.p.orders''),
                                              (''name'', JStr ''.'')])],
                 Models = [(''x.p.orders'', [(''resource_type'', JStr ''model''),
                                             (''unique_id'', JStr ''x.p.orders''),
                                             (''name'', JStr ''.'')])],
                 Seeds = [], Snapshots = [], Tests = []\<rparr>, None) \<and>
   GetTable \<lparr>Sources = [(''x.p.orders'', [(''resource_type'', JStr ''source''),
                                           (''unique_id'', JStr ''x.p.orders''),
                                           (''name'', JStr ''.'')])],
             Models = [(''x.p.orders'', [(''resource_type'', JStr ''model''),
                                          (''unique_id'', JStr ''x.p.orders''),
                                          (''name'', JStr ''.'')])],
             Seeds = [], Snapshots = [], Tests = []\<rparr> ''x.p.orders''
   = ([], Some (DuplicateUniqueId ''x.p.orders'')) \<and>
   doCompute asciiToLower CHR ''/''
     (Decoded (JObj [
        (''sources'', JObj [(''a'', JObj [(''resource_type'', JStr ''source''),
                                         (''unique_id'', JStr ''x.p.orders'')])]),
        (''nodes'', JObj [(''b'', JObj [(''resource_type'', JStr ''model''),
                                       (''unique_id'', JStr ''x.p.orders'')])])]))
     (Decoded (JObj [(''nodes'', JObj [(''x.p.orders'',
        JObj [(''unique_id'', JStr ''x.p.orders'')])])]))
     True CoverageTypeDoc []
   = Ret (Some (UniqueIdNotInManifest ''x.p.orders''))"
  by code_simp

text \<open>The third assertion is not reached in a run of the program: the manifest that
  \<^verbatim>\<open>loadManifest\<close> returns holds normalized tables only, and the table that
  \<^verbatim>\<open>GetTable\<close> resolves is one of them.\<close>

lemma normalizeTable_name:
  "normalizeTable ToLower sep table = Ret t \<Longrightarrow> \<exists>n. getString t ''name'' = Some n"
  by (auto simp: normalizeTable_def Let_def getString_def update_conv'
           split: option.splits outcome.splits)

lemma tablesNamed_update:
  "tablesNamed tbls \<Longrightarrow> getString t ''name'' \<noteq> None \<Longrightarrow>
     tablesNamed (AList.update k t tbls)"
  by (induction tbls) (auto simp: tablesNamed_def)

lemma tablesNamed_lookup:
  "tablesNamed tbls \<Longrightarrow> map_of tbls k = Some t \<Longrightarrow> getString t ''name'' \<noteq> None"
  by (induction tbls) (auto simp: tablesNamed_def split: if_splits)

lemma manifestStep_named:
  assumes "manifestStep ToLower sep v m = Ret m'" and "manifestNamed m"
  shows "manifestNamed m'"
proof (cases v)
  case (JObj node)
  have upd: "tablesNamed (AList.update k t tbls)"
    if "normalizeTable ToLower sep node = Ret t" "tablesNamed tbls" for k t tbls
    using normalizeTable_name [OF that(1)] that(2) by (auto intro: tablesNamed_update)
  show ?thesis
  proof (cases "normalizeTable ToLower sep node")
    case Panic
    with assms JObj show ?thesis
      by (auto simp: manifestStep_def Let_def manifestNamed_def split: if_splits)
  next
    case (Ret t)
    with assms JObj upd [OF Ret] show ?thesis
      by (auto simp: manifestStep_def Let_def manifestNamed_def split: if_splits)
  qed
qed (use assms in \<open>simp_all add: manifestStep_def\<close>)

lemma manifestLoop_named:
  "manifestLoop ToLower sep nodes m = Ret m' \<Longrightarrow> manifestNamed m \<Longrightarrow> manifestNamed m'"
proof (induction nodes arbitrary: m)
  case Nil
  then show ?case by simp
next
  case (Cons a nodes)
  obtain k v where a: "a = (k, v)" by (cases a)
  from Cons.prems(1) a obtain m1 where s: "manifestStep ToLower sep v m = Ret m1"
    and l: "manifestLoop ToLower sep nodes m1 = Ret m'"
    by (cases "manifestStep ToLower sep v m") simp_all
  from Cons.IH [OF l manifestStep_named [OF s Cons.prems(2)]] show ?case .
qed

lemma loadManifest_named:
  assumes "loadManifest ToLower sep manifestFile = Ret (Some m, None)"
  shows "manifestNamed m"
proof -
  have e: "manifestNamed emptyManifest"
    by (simp add: manifestNamed_def emptyManifest_def tablesNamed_def)
  from assms obtain nodes where "ManifestFromNodes ToLower sep nodes = Ret (Some m, None)"
    by (auto simp: loadManifest_def Let_def split: artifact.splits option.splits)
  then have "manifestLoop ToLower sep nodes emptyManifest = Ret m"
    by (cases "manifestLoop ToLower sep nodes emptyManifest") (simp_all add: ManifestFromNodes_def)
  from manifestLoop_named [OF this e] show ?thesis .
qed

lemma resolved_table_has_name:
  assumes "loadManifest ToLower sep manifestFile = Ret (Some m, None)"
    and "GetTable m tableID = (manifestTable, None)"
  shows "\<exists>n. getString manifestTable ''name'' = Some n"
proof -
  from loadManifest_named [OF assms(1)]
  have "tablesNamed (Sources m)" "tablesNamed (Models m)" "tablesNamed (Seeds m)"
    "tablesNamed (Snapshots m)"
    by (simp_all add: manifestNamed_def)
  with GetTable_resolved [OF assms(2)] have "getString manifestTable ''name'' \<noteq> None"
    by (auto dest: tablesNamed_lookup)
  then show ?thesis by auto
qed

section \<open>Attribution of tests\<close>

lemma testsOf_appendTest_same:
  "testsOfColumn (testsOfTable (appendTest tests t c n) t) c
     = testsOfColumn (testsOfTable tests t) c @ [n]"
  by (simp add: appendTest_def testsOfTable_def testsOfColumn_def Let_def update_conv'
           split: option.splits)

lemma testsOf_appendTest_other:
  "t' \<noteq> t \<or> c' \<noteq> c \<Longrightarrow>
   testsOfColumn (testsOfTable (appendTest tests t c n) t') c'
     = testsOfColumn (testsOfTable tests t') c'"
  by (auto simp: appendTest_def testsOfTable_def testsOfColumn_def Let_def update_conv'
           split: option.splits)

lemma testsOf_appendTest:
  "testsOfColumn (testsOfTable (appendTest tests t c n) t') c'
     = testsOfColumn (testsOfTable tests t') c' @ (if (t, c) = (t', c') then [n] else [])"
  using testsOf_appendTest_same [of tests t c n] testsOf_appendTest_other [of t' t c' c tests n]
  by auto

lemma assignIfString_empty: "assignIfString m k [] = stringOrEmpty m k"
  by (simp add: assignIfString_def stringOrEmpty_def getString_def split: option.split json.split)

lemma testColumnName_priority:
  "testColumnName node testMeta =
     (case find (\<lambda>s. s \<noteq> [])
             [stringOrEmpty node ''column_name'',
              (case getObject testMeta ''kwargs'' of
                 Some kwargs \<Rightarrow> stringOrEmpty kwargs ''column_name'' | None \<Rightarrow> []),
              (case getObject testMeta ''kwargs'' of
                 Some kwargs \<Rightarrow> stringOrEmpty kwargs ''arg'' | None \<Rightarrow> [])] of
        Some s \<Rightarrow> s | None \<Rightarrow> [])"
proof (cases "stringOrEmpty node ''column_name'' = []")
  case False
  then show ?thesis by (simp add: testColumnName_def assignIfString_empty Let_def)
next
  case a: True
  show ?thesis
  proof (cases "getObject testMeta ''kwargs''")
    case None
    with a show ?thesis by (simp add: testColumnName_def assignIfString_empty Let_def)
  next
    case (Some kwargs)
    show ?thesis
    proof (cases "stringOrEmpty kwargs ''column_name'' = []")
      case True
      with a Some show ?thesis by (simp add: testColumnName_def assignIfString_empty Let_def)
    next
      case False
      with a Some show ?thesis by (simp add: testColumnName_def assignIfString_empty Let_def)
    qed
  qed
qed

text \<open>The \<^verbatim>\<open>case "test"\<close> appends the node under its key, or leaves the index alone.\<close>

lemma attributeTest_key:
  "attributeTest ToLower node tests =
     (case testKey ToLower node of
        None \<Rightarrow> tests
      | Some (t, c) \<Rightarrow> appendTest tests t c (JObj node))"
  by (simp add: attributeTest_def testKey_def Let_def split: option.split)

lemma testKey_qualified:
  assumes "map_of node ''test_metadata'' = Some (JObj testMeta)"
    and "getObject node ''depends_on'' = Some dependsRaw"
    and "getArray dependsRaw ''nodes'' = Some nodesDep"
    and "nodesDep \<noteq> []"
  shows "testKey ToLower node =
           (if testColumnName node testMeta = [] then None
            else Some (if stringOrEmpty testMeta ''name'' = ''relationships''
                       then dependencyID (last nodesDep) else dependencyID (hd nodesDep),
                       ToLower (testColumnName node testMeta)))"
  using assms by (simp add: testKey_def getObject_def Let_def last_conv_nth hd_conv_nth)

lemma manifestStep_tests:
  assumes "manifestStep ToLower sep v m = Ret m'"
  shows "Tests m' = (case filedUnder ToLower v of
                       None \<Rightarrow> Tests m
                     | Some (t, c) \<Rightarrow> appendTest (Tests m) t c v)"
proof (cases v)
  case (JObj node)
  show ?thesis
  proof (cases "stringOrEmpty node ''resource_type'' = ''test''")
    case True
    with assms JObj show ?thesis
      by (auto simp: manifestStep_def Let_def filedUnder_def attributeTest_key)
  next
    case False
    with assms JObj show ?thesis
      by (auto simp: manifestStep_def Let_def filedUnder_def
               split: if_splits outcome.splits)
  qed
qed (use assms in \<open>auto simp: manifestStep_def filedUnder_def\<close>)

lemma manifestLoop_tests:
  "manifestLoop ToLower sep nodes m = Ret m' \<Longrightarrow>
   testsOfColumn (testsOfTable (Tests m') t) c =
     testsOfColumn (testsOfTable (Tests m) t) c @
       map snd (filter (\<lambda>(k, v). filedUnder ToLower v = Some (t, c)) nodes)"
proof (induction nodes arbitrary: m)
  case Nil
  then show ?case by simp
next
  case (Cons a nodes)
  obtain k v where a: "a = (k, v)" by (cases a)
  from Cons.prems a obtain m1 where s: "manifestStep ToLower sep v m = Ret m1"
    and l: "manifestLoop ToLower sep nodes m1 = Ret m'"
    by (cases "manifestStep ToLower sep v m") simp_all
  have "testsOfColumn (testsOfTable (Tests m1) t) c =
          testsOfColumn (testsOfTable (Tests m) t) c @
            (if filedUnder ToLower v = Some (t, c) then [v] else [])"
    using manifestStep_tests [OF s] testsOf_appendTest [of "Tests m" _ _ v t c]
    by (auto split: option.splits)
  with Cons.IH [OF l] a show ?case by simp
qed

text \<open>The index that \<^verbatim>\<open>ManifestFromNodes\<close> returns: under a table and a column stand
  the nodes that are filed under this key, in the order in which the loop met them.\<close>

lemma ManifestFromNodes_tests:
  assumes "ManifestFromNodes ToLower sep manifestNodes = Ret (Some m, None)"
  shows "testsOfColumn (testsOfTable (Tests m) t) c =
           map snd (filter (\<lambda>(k, v). filedUnder ToLower v = Some (t, c)) manifestNodes)"
proof -
  from assms have "manifestLoop ToLower sep manifestNodes emptyManifest = Ret m"
    by (cases "manifestLoop ToLower sep manifestNodes emptyManifest")
       (simp_all add: ManifestFromNodes_def)
  from manifestLoop_tests [OF this, of t c] show ?thesis
    by (simp add: emptyManifest_def testsOfTable_def testsOfColumn_def)
qed

lemma ManifestFromNodes_filed:
  assumes "ManifestFromNodes ToLower sep manifestNodes = Ret (Some m, None)"
  shows "v \<in> set (testsOfColumn (testsOfTable (Tests m) t) c) \<longleftrightarrow>
           v \<in> snd ` set manifestNodes \<and> filedUnder ToLower v = Some (t, c)"
  unfolding ManifestFromNodes_tests [OF assms] by force

text \<open>\<^verbatim>\<open>ManifestFromNodes\<close> returns unless \<^verbatim>\<open>normalizeTable\<close> panics on a node that
  is a source, a model, a seed or a snapshot.\<close>

lemma manifestLoop_returns:
  assumes "\<forall>k node. (k, JObj node) \<in> set nodes \<longrightarrow>
             stringOrEmpty node ''resource_type'' \<in> {''source'', ''model'', ''seed'', ''snapshot''} \<longrightarrow>
             normalizeTable ToLower sep node \<noteq> Panic"
  shows "\<exists>m'. manifestLoop ToLower sep nodes m = Ret m'"
  using assms
proof (induction nodes arbitrary: m)
  case Nil
  then show ?case by simp
next
  case (Cons a nodes)
  obtain k v where a: "a = (k, v)" by (cases a)
  have "\<exists>m1. manifestStep ToLower sep v m = Ret m1"
  proof (cases v)
    case (JObj node)
    with Cons.prems a
    have "stringOrEmpty node ''resource_type'' \<in> {''source'', ''model'', ''seed'', ''snapshot''} \<longrightarrow>
            (\<exists>t. normalizeTable ToLower sep node = Ret t)"
      by (cases "normalizeTable ToLower sep node") auto
    with JObj show ?thesis
      by (auto simp: manifestStep_def Let_def)
  qed (simp_all add: manifestStep_def)
  then obtain m1 where s: "manifestStep ToLower sep v m = Ret m1" by blast
  from Cons.prems have "\<forall>k node. (k, JObj node) \<in> set nodes \<longrightarrow>
             stringOrEmpty node ''resource_type'' \<in> {''source'', ''model'', ''seed'', ''snapshot''} \<longrightarrow>
             normalizeTable ToLower sep node \<noteq> Panic"
    by auto
  from Cons.IH [OF this, of m1] s a show ?case by simp
qed

lemma ManifestFromNodes_returns:
  assumes "\<forall>k node. (k, JObj node) \<in> set manifestNodes \<longrightarrow>
             stringOrEmpty node ''resource_type'' \<in> {''source'', ''model'', ''seed'', ''snapshot''} \<longrightarrow>
             normalizeTable ToLower sep node \<noteq> Panic"
  shows "\<exists>m. ManifestFromNodes ToLower sep manifestNodes = Ret (Some m, None)"
  using manifestLoop_returns [OF assms, of emptyManifest]
  by (auto simp: ManifestFromNodes_def)

text \<open>
  Claim C2 says that every test node with a \<^verbatim>\<open>test_metadata\<close> block and a non-empty
  list \<^verbatim>\<open>depends_on.nodes\<close> is attributed to the last entry of the list when the test
  is named \<^verbatim>\<open>relationships\<close>, and to the first entry otherwise. The entry is read
  with \<^verbatim>\<open>if first, ok := nodesDep[0].(string); ok { tableID = first }\<close>: when it is
  not a string the identifier stays empty. In the manifest below the first entry of the
  list is the number 1, and \<^verbatim>\<open>ManifestFromNodes\<close> files the test under the empty
  identifier.
\<close>

theorem C2_non_string_entry_gives_empty_identifier:
  "ManifestFromNodes asciiToLower CHR ''/''
     [(''test.p.nn'',
       JObj [(''resource_type'', JStr ''test''), (''column_name'', JStr ''id''),
             (''test_metadata'', JObj [(''name'', JStr ''not_null'')]),
             (''depends_on'', JObj [(''nodes'', JArr [JNum 1, JStr ''model.p.t''])])])]
   = Ret (Some \<lparr>Sources = [], Models = [], Seeds = [], Snapshots = [],
                 Tests = [([], [(''id'',
                   [JObj [(''resource_type'', JStr ''test''), (''column_name'', JStr ''id''),
                          (''test_metadata'', JObj [(''name'', JStr ''not_null'')]),
                          (''depends_on'',
                           JObj [(''nodes'', JArr [JNum 1, JStr ''model.p.t''])])]])])]\<rparr>,
          None)"
  by code_simp

text \<open>
  Claim C2, amended: take a node of the manifest whose \<^verbatim>\<open>resource_type\<close> is
  \<^verbatim>\<open>test\<close>, whose \<^verbatim>\<open>test_metadata\<close> is a block, whose \<^verbatim>\<open>depends_on.nodes\<close> is a
  non-empty list and whose column name is resolved. In the test index that
  \<^verbatim>\<open>ManifestFromNodes\<close> returns the node stands under one table identifier and one
  column only. The identifier is the last entry of \<^verbatim>\<open>depends_on.nodes\<close> when the name
  of the test is \<^verbatim>\<open>relationships\<close> and the first entry for every other name, if that
  entry is a string; if it is not a string the identifier is the empty string.
\<close>

theorem C2_test_target_table:
  assumes "ManifestFromNodes ToLower sep manifestNodes = Ret (Some m, None)"
    and "(k, JObj node) \<in> set manifestNodes"
    and "stringOrEmpty node ''resource_type'' = ''test''"
    and "map_of node ''test_metadata'' = Some (JObj testMeta)"
    and "getObject node ''depends_on'' = Some dependsRaw"
    and "getArray dependsRaw ''nodes'' = Some nodesDep"
    and "nodesDep \<noteq> []"
    and "testColumnName node testMeta \<noteq> []"
    and "entry = (if stringOrEmpty testMeta ''name'' = ''relationships''
                  then last nodesDep else hd nodesDep)"
    and "target = (case entry of JStr s \<Rightarrow> s | _ \<Rightarrow> [])"
  shows "JObj node \<in> set (testsOfColumn (testsOfTable (Tests m) target)
                             (ToLower (testColumnName node testMeta))) \<and>
         (\<forall>t c. JObj node \<in> set (testsOfColumn (testsOfTable (Tests m) t) c) \<longrightarrow>
                  t = target \<and> c = ToLower (testColumnName node testMeta))"
proof -
  have t: "target = (if stringOrEmpty testMeta ''name'' = ''relationships''
                     then dependencyID (last nodesDep) else dependencyID (hd nodesDep))"
    using assms(9,10) by (simp add: dependencyID_def)
  have "testKey ToLower node = Some (target, ToLower (testColumnName node testMeta))"
    using testKey_qualified [OF assms(4) assms(5) assms(6) assms(7), of ToLower] assms(8) t
    by simp
  with assms(3)
  have key: "filedUnder ToLower (JObj node) = Some (target, ToLower (testColumnName node testMeta))"
    by (simp add: filedUnder_def)
  from assms(2) have mem: "JObj node \<in> snd ` set manifestNodes" by force
  show ?thesis
    using ManifestFromNodes_filed [OF assms(1), of "JObj node"] key mem by auto
qed

theorem C2_test_target_table_witness:
  "ManifestFromNodes asciiToLower CHR ''/''
     [(''test.p.rel'',
       JObj [(''resource_type'', JStr ''test''), (''column_name'', JStr ''User_ID''),
             (''test_metadata'', JObj [(''name'', JStr ''relationships'')]),
             (''depends_on'', JObj [(''nodes'', JArr [JStr ''modelA'', JStr ''modelB''])])])]
   = Ret (Some \<lparr>Sources = [], Models = [], Seeds = [], Snapshots = [],
                 Tests = [(''modelB'', [(''user_id'',
                   [JObj [(''resource_type'', JStr ''test''), (''column_name'', JStr ''User_ID''),
                          (''test_metadata'', JObj [(''name'', JStr ''relationships'')]),
                          (''depends_on'',
                           JObj [(''nodes'', JArr [JStr ''modelA'', JStr ''modelB''])])]])])]\<rparr>,
          None) \<and>
   JObj [(''resource_type'', JStr ''test''), (''column_name'', JStr ''User_ID''),
         (''test_metadata'', JObj [(''name'', JStr ''relationships'')]),
         (''depends_on'', JObj [(''nodes'', JArr [JStr ''modelA'', JStr ''modelB''])])]
     \<in> set (testsOfColumn (testsOfTable
          [(''modelB'', [(''user_id'',
             [JObj [(''resource_type'', JStr ''test''), (''column_name'', JStr ''User_ID''),
                    (''test_metadata'', JObj [(''name'', JStr ''relationships'')]),
                    (''depends_on'',
                     JObj [(''nodes'', JArr [JStr ''modelA'', JStr ''modelB''])])]])])]
          ''modelB'') (asciiToLower ''User_ID''))"
proof -
  let ?node = "[(''resource_type'', JStr ''test''), (''column_name'', JStr ''User_ID''),
         (''test_metadata'', JObj [(''name'', JStr ''relationships'')]),
         (''depends_on'', JObj [(''nodes'', JArr [JStr ''modelA'', JStr ''modelB''])])]"
  let ?m = "\<lparr>Sources = [], Models = [], Seeds = [], Snapshots = [],
             Tests = [(''modelB'', [(''user_id'', [JObj ?node])])]\<rparr>"
  have r: "ManifestFromNodes asciiToLower CHR ''/'' [(''test.p.rel'', JObj ?node)]
             = Ret (Some ?m, None)"
    by code_simp
  have h2: "(''test.p.rel'', JObj ?node) \<in> set [(''test.p.rel'', JObj ?node)]" by simp
  have h3: "stringOrEmpty ?node ''resource_type'' = ''test''"
    by (simp add: stringOrEmpty_def getString_def)
  have h4: "map_of ?node ''test_metadata'' = Some (JObj [(''name'', JStr ''relationships'')])"
    by simp
  have h5: "getObject ?node ''depends_on''
              = Some [(''nodes'', JArr [JStr ''modelA'', JStr ''modelB''])]"
    by (simp add: getObject_def)
  have h6: "getArray [(''nodes'', JArr [JStr ''modelA'', JStr ''modelB''])] ''nodes''
              = Some [JStr ''modelA'', JStr ''modelB'']"
    by (simp add: getArray_def)
  have h7: "[JStr ''modelA'', JStr ''modelB''] \<noteq> []" by simp
  have c: "testColumnName ?node [(''name'', JStr ''relationships'')] = ''User_ID''"
    by (simp add: testColumnName_def assignIfString_def)
  then have h8: "testColumnName ?node [(''name'', JStr ''relationships'')] \<noteq> []" by simp
  have h9: "JStr ''modelB'' =
              (if stringOrEmpty [(''name'', JStr ''relationships'')] ''name'' = ''relationships''
               then last [JStr ''modelA'', JStr ''modelB'']
               else hd [JStr ''modelA'', JStr ''modelB''])"
    by (simp add: stringOrEmpty_def getString_def)
  have h10: "''modelB'' = (case JStr ''modelB'' of JStr s \<Rightarrow> s | _ \<Rightarrow> [])" by simp
  from C2_test_target_table [OF r h2 h3 h4 h5 h6 h7 h8 h9 h10] c r
  show ?thesis by simp
qed

text \<open>
  Claim C3: for a test node with a \<^verbatim>\<open>test_metadata\<close> block and a non-empty list
  \<^verbatim>\<open>depends_on.nodes\<close>, the column is the first non-empty string among the field
  \<^verbatim>\<open>column_name\<close> of the node, \<^verbatim>\<open>test_metadata.kwargs.column_name\<close> and
  \<^verbatim>\<open>test_metadata.kwargs.arg\<close>, in this order (a field that is absent or not a string
  counts as empty). In the test index that \<^verbatim>\<open>ManifestFromNodes\<close> returns the node
  stands under this name in lower case, and under no other column; when the three are
  empty the node stands nowhere in the index.
\<close>

theorem C3_test_target_column:
  assumes "ManifestFromNodes ToLower sep manifestNodes = Ret (Some m, None)"
    and "(k, JObj node) \<in> set manifestNodes"
    and "stringOrEmpty node ''resource_type'' = ''test''"
    and "map_of node ''test_metadata'' = Some (JObj testMeta)"
    and "getObject node ''depends_on'' = Some dependsRaw"
    and "getArray dependsRaw ''nodes'' = Some nodesDep"
    and "nodesDep \<noteq> []"
    and "candidates =
           [stringOrEmpty node ''column_name'',
            (case getObject testMeta ''kwargs'' of
               Some kwargs \<Rightarrow> stringOrEmpty kwargs ''column_name'' | None \<Rightarrow> []),
            (case getObject testMeta ''kwargs'' of
               Some kwargs \<Rightarrow> stringOrEmpty kwargs ''arg'' | None \<Rightarrow> [])]"
    and "tableID = (if stringOrEmpty testMeta ''name'' = ''relationships''
                    then dependencyID (last nodesDep) else dependencyID (hd nodesDep))"
  shows "(case find (\<lambda>s. s \<noteq> []) candidates of
            None \<Rightarrow>
              (\<forall>t c. JObj node \<notin> set (testsOfColumn (testsOfTable (Tests m) t) c))
          | Some s \<Rightarrow>
              JObj node \<in> set (testsOfColumn (testsOfTable (Tests m) tableID) (ToLower s)) \<and>
              (\<forall>t c. JObj node \<in> set (testsOfColumn (testsOfTable (Tests m) t) c) \<longrightarrow>
                       t = tableID \<and> c = ToLower s))"
proof -
  have c: "testColumnName node testMeta =
             (case find (\<lambda>s. s \<noteq> []) candidates of Some s \<Rightarrow> s | None \<Rightarrow> [])"
    using testColumnName_priority [of node testMeta] assms(8) by simp
  have ne: "find (\<lambda>s. s \<noteq> []) candidates = Some s \<Longrightarrow> s \<noteq> []" for s
    by (auto simp: find_Some_iff)
  have key: "filedUnder ToLower (JObj node) =
               (case find (\<lambda>s. s \<noteq> []) candidates of
                  None \<Rightarrow> None | Some s \<Rightarrow> Some (tableID, ToLower s))"
    using testKey_qualified [OF assms(4) assms(5) assms(6) assms(7), of ToLower] assms(3,9) c ne
    by (auto simp: filedUnder_def split: option.splits)
  from assms(2) have mem: "JObj node \<in> snd ` set manifestNodes" by force
  show ?thesis
    using ManifestFromNodes_filed [OF assms(1), of "JObj node"] key mem
    by (auto split: option.splits)
qed

theorem C3_test_target_column_witness:
  "ManifestFromNodes asciiToLower CHR ''/''
     [(''test.p.a'',
       JObj [(''resource_type'', JStr ''test''), (''column_name'', JNull),
             (''test_metadata'', JObj [(''name'', JStr ''not_null''),
                                       (''kwargs'', JObj [(''column_name'', JStr []),
                                                          (''arg'', JStr ''User_ID'')])]),
             (''depends_on'', JObj [(''nodes'', JArr [JStr ''modelA''])])]),
      (''test.p.b'',
       JObj [(''resource_type'', JStr ''test''),
             (''test_metadata'', JObj [(''name'', JStr ''not_null''), (''kwargs'', JObj [])]),
             (''depends_on'', JObj [(''nodes'', JArr [JStr ''modelA''])])])]
   = Ret (Some \<lparr>Sources = [], Models = [], Seeds = [], Snapshots = [],
                 Tests = [(''modelA'', [(''user_id'',
                   [JObj [(''resource_type'', JStr ''test''), (''column_name'', JNull),
                          (''test_metadata'', JObj [(''name'', JStr ''not_null''),
                             (''kwargs'', JObj [(''column_name'', JStr []),
                                                (''arg'', JStr ''User_ID'')])]),
                          (''depends_on'', JObj [(''nodes'', JArr [JStr ''modelA''])])]])])]\<rparr>,
          None) \<and>
   JObj [(''resource_type'', JStr ''test''), (''column_name'', JNull),
         (''test_metadata'', JObj [(''name'', JStr ''not_null''),
                                   (''kwargs'', JObj [(''column_name'', JStr []),
                                                      (''arg'', JStr ''User_ID'')])]),
         (''depends_on'', JObj [(''nodes'', JArr [JStr ''modelA''])])]
     \<in> set (testsOfColumn (testsOfTable
          [(''modelA'', [(''user_id'',
             [JObj [(''resource_type'', JStr ''test''), (''column_name'', JNull),
                    (''test_metadata'', JObj [(''name'', JStr ''not_null''),
                       (''kwargs'', JObj [(''column_name'', JStr []),
                                          (''arg'', JStr ''User_ID'')])]),
                    (''depends_on'', JObj [(''nodes'', JArr [JStr ''modelA''])])]])])]
          ''modelA'') (asciiToLower ''User_ID'')) \<and>
   (\<forall>t c.
      JObj [(''resource_type'', JStr ''test''),
            (''test_metadata'', JObj [(''name'', JStr ''not_null''), (''kwargs'', JObj [])]),
            (''depends_on'', JObj [(''nodes'', JArr [JStr ''modelA''])])]
      \<notin> set (testsOfColumn (testsOfTable
          [(''modelA'', [(''user_id'',
             [JObj [(''resource_type'', JStr ''test''), (''column_name'', JNull),
                    (''test_metadata'', JObj [(''name'', JStr ''not_null''),
                       (''kwargs'', JObj [(''column_name'', JStr []),
                                          (''arg'', JStr ''User_ID'')])]),
                    (''depends_on'', JObj [(''nodes'', JArr [JStr ''modelA''])])]])])]
          t) c))"
proof -
  let ?a = "[(''resource_type'', JStr ''test''), (''column_name'', JNull),
             (''test_metadata'', JObj [(''name'', JStr ''not_null''),
                                       (''kwargs'', JObj [(''column_name'', JStr []),
                                                          (''arg'', JStr ''User_ID'')])]),
             (''depends_on'', JObj [(''nodes'', JArr [JStr ''modelA''])])]"
  let ?ma = "[(''name'', JStr ''not_null''),
              (''kwargs'', JObj [(''column_name'', JStr []), (''arg'', JStr ''User_ID'')])]"
  let ?b = "[(''resource_type'', JStr ''test''),
             (''test_metadata'', JObj [(''name'', JStr ''not_null''), (''kwargs'', JObj [])]),
             (''depends_on'', JObj [(''nodes'', JArr [JStr ''modelA''])])]"
  let ?mb = "[(''name'', JStr ''not_null''), (''kwargs'', JObj [])]"
  let ?nodes = "[(''test.p.a'', JObj ?a), (''test.p.b'', JObj ?b)]"
  let ?m = "\<lparr>Sources = [], Models = [], Seeds = [], Snapshots = [],
             Tests = [(''modelA'', [(''user_id'', [JObj ?a])])]\<rparr>"
  have r: "ManifestFromNodes asciiToLower CHR ''/'' ?nodes = Ret (Some ?m, None)"
    by code_simp
  have ha: "(''test.p.a'', JObj ?a) \<in> set ?nodes" and hb: "(''test.p.b'', JObj ?b) \<in> set ?nodes"
    by simp_all
  have ta: "stringOrEmpty ?a ''resource_type'' = ''test''"
    and tb: "stringOrEmpty ?b ''resource_type'' = ''test''"
    by (simp_all add: stringOrEmpty_def getString_def)
  have ma: "map_of ?a ''test_metadata'' = Some (JObj ?ma)"
    and mb: "map_of ?b ''test_metadata'' = Some (JObj ?mb)"
    by simp_all
  have da: "getObject ?a ''depends_on'' = Some [(''nodes'', JArr [JStr ''modelA''])]"
    and db: "getObject ?b ''depends_on'' = Some [(''nodes'', JArr [JStr ''modelA''])]"
    by (simp_all add: getObject_def)
  have n: "getArray [(''nodes'', JArr [JStr ''modelA''])] ''nodes'' = Some [JStr ''modelA'']"
    by (simp add: getArray_def)
  have ne: "[JStr ''modelA''] \<noteq> []" by simp
  have ca: "[[], [], ''User_ID''] =
           [stringOrEmpty ?a ''column_name'',
            (case getObject ?ma ''kwargs'' of
               Some kwargs \<Rightarrow> stringOrEmpty kwargs ''column_name'' | None \<Rightarrow> []),
            (case getObject ?ma ''kwargs'' of
               Some kwargs \<Rightarrow> stringOrEmpty kwargs ''arg'' | None \<Rightarrow> [])]"
    by (simp add: stringOrEmpty_def getString_def getObject_def)
  have cb: "[[], [], []] =
           [stringOrEmpty ?b ''column_name'',
            (case getObject ?mb ''kwargs'' of
               Some kwargs \<Rightarrow> stringOrEmpty kwargs ''column_name'' | None \<Rightarrow> []),
            (case getObject ?mb ''kwargs'' of
               Some kwargs \<Rightarrow> stringOrEmpty kwargs ''arg'' | None \<Rightarrow> [])]"
    by (simp add: stringOrEmpty_def getString_def getObject_def)
  have ia: "''modelA'' = (if stringOrEmpty ?ma ''name'' = ''relationships''
                    then dependencyID (last [JStr ''modelA'']) else dependencyID (hd [JStr ''modelA'']))"
    and ib: "''modelA'' = (if stringOrEmpty ?mb ''name'' = ''relationships''
                    then dependencyID (last [JStr ''modelA'']) else dependencyID (hd [JStr ''modelA'']))"
    by (simp_all add: stringOrEmpty_def getString_def dependencyID_def)
  from C3_test_target_column [OF r ha ta ma da n ne ca ia]
  have fa: "JObj ?a \<in> set (testsOfColumn (testsOfTable (Tests ?m) ''modelA'')
                               (asciiToLower ''User_ID''))"
    by simp
  from C3_test_target_column [OF r hb tb mb db n ne cb ib]
  have fb: "\<forall>t c. JObj ?b \<notin> set (testsOfColumn (testsOfTable (Tests ?m) t) c)"
    by simp
  from r fa fb show ?thesis by simp
qed

section \<open>Building the catalog\<close>

lemma NewTableFromNode_malformed:
  assumes "getString node ''unique_id'' = None \<or>
           (\<exists>uniqueID err. getString node ''unique_id'' = Some uniqueID \<and>
                            snd (GetTable manifest uniqueID) = Some err)"
  shows "\<exists>err. NewTableFromNode ToLower node manifest = Ret (zeroTable, Some err)"
  using assms
proof
  assume "getString node ''unique_id'' = None"
  then show ?thesis by (simp add: NewTableFromNode_def)
next
  assume "\<exists>uniqueID err. getString node ''unique_id'' = Some uniqueID \<and>
                          snd (GetTable manifest uniqueID) = Some err"
  then obtain uniqueID err where "getString node ''unique_id'' = Some uniqueID"
    and "snd (GetTable manifest uniqueID) = Some err" by blast
  then show ?thesis
    by (cases "GetTable manifest uniqueID") (simp add: NewTableFromNode_def)
qed

lemma catalogLoop_first_malformed:
  assumes "NewTableFromNode ToLower node manifest = Ret (t, Some e)"
  shows "(catalogLoop ToLower (before @ JObj node # rest) manifest tables = Panic \<and>
          (\<exists>obj. JObj obj \<in> set before \<and> NewTableFromNode ToLower obj manifest = Panic)) \<or>
         (\<exists>err. catalogLoop ToLower (before @ JObj node # rest) manifest tables
                  = Ret (zeroCatalog, Some err))"
proof (induction before arbitrary: tables)
  case Nil
  from assms show ?case by simp
next
  case (Cons n before)
  show ?case
  proof (cases n)
    case (JObj obj)
    show ?thesis
    proof (cases "NewTableFromNode ToLower obj manifest")
      case Panic
      with JObj show ?thesis by auto
    next
      case (Ret r)
      obtain table err where r: "r = (table, err)" by (cases r)
      show ?thesis
      proof (cases err)
        case (Some e')
        with JObj Ret r show ?thesis by simp
      next
        case None
        from Cons.IH [of "AList.update (t_UniqueID table) table tables"] JObj Ret r None
        show ?thesis by auto
      qed
    qed
  qed (use Cons.IH [of tables] in auto)
qed

lemma catalogLoop_skips_non_objects:
  "catalogLoop ToLower nodes manifest tables
     = catalogLoop ToLower (filter isObject nodes) manifest tables"
proof (induction nodes arbitrary: tables)
  case Nil
  then show ?case by simp
next
  case (Cons n nodes)
  show ?case
  proof (cases n)
    case (JObj obj)
    with Cons.IH show ?thesis
      by (simp add: isObject_def split: outcome.split prod.split option.split)
  qed (use Cons.IH in \<open>simp_all add: isObject_def\<close>)
qed

text \<open>
  Claim C5 says that \<^verbatim>\<open>CatalogFromNodes\<close> returns an error and the empty catalog
  as soon as one node of the list has no string \<^verbatim>\<open>unique_id\<close> or one that the
  manifest does not resolve. An entry of the list that is not a JSON object has no
  \<^verbatim>\<open>unique_id\<close>, and the loop skips it (\<^verbatim>\<open>if node, ok := n.(map[string]interface{}); ok\<close>):
  the catalog of the other nodes is returned without an error.
\<close>

theorem C5_non_object_node_is_skipped:
  "CatalogFromNodes asciiToLower
     [JNull,
      JObj [(''unique_id'', JStr ''model.p.t''),
            (''columns'', JObj [(''id'', JObj [(''name'', JStr ''ID'')])])]]
     \<lparr>Sources = [],
      Models = [(''model.p.t'', [(''name'', JStr ''dev.t''),
                                (''original_file_path'', JStr ''models/t.sql'')])],
      Seeds = [], Snapshots = [], Tests = []\<rparr>
   = Ret (\<lparr>Tables = [(''model.p.t'',
             \<lparr>t_UniqueID = ''model.p.t'', t_Name = ''dev.t'',
              t_OriginalFilePath = ''models/t.sql'',
              t_Columns = [(''id'', \<lparr>c_Name = ''id'', c_Doc = False, c_Test = False\<rparr>)]\<rparr>)]\<rparr>,
          None)"
  by (simp add: CatalogFromNodes_def NewTableFromNode_def GetTable_def getString_def
        getObject_def stringOrEmpty_def NewColumnFromNode_def asciiToLower_def lowerChar_def)

text \<open>
  Claim C5, amended: let a node of the list that is a JSON object have no string
  \<^verbatim>\<open>unique_id\<close>, or a \<^verbatim>\<open>unique_id\<close> for which \<^verbatim>\<open>GetTable\<close> returns an error (it is
  in no partition of the manifest, or in several). Then \<^verbatim>\<open>CatalogFromNodes\<close> returns
  an error together with the empty catalog, unless \<^verbatim>\<open>NewTableFromNode\<close> panics on
  an object that stands before this node in the list: the function panics only in that
  case, and it never returns a catalog without an error. Entries that are not JSON
  objects are skipped: for every list the result is that of the list of its objects.
\<close>

theorem C5_malformed_object_node_aborts:
  assumes "nodes = before @ JObj node # rest"
    and "getString node ''unique_id'' = None \<or>
         (\<exists>uniqueID err. getString node ''unique_id'' = Some uniqueID \<and>
                          snd (GetTable manifest uniqueID) = Some err)"
  shows "((\<forall>obj. JObj obj \<in> set before \<longrightarrow> NewTableFromNode ToLower obj manifest \<noteq> Panic) \<longrightarrow>
            (\<exists>err. CatalogFromNodes ToLower nodes manifest = Ret (zeroCatalog, Some err))) \<and>
         (CatalogFromNodes ToLower nodes manifest = Panic \<longrightarrow>
            (\<exists>obj. JObj obj \<in> set before \<and> NewTableFromNode ToLower obj manifest = Panic)) \<and>
         (\<forall>c e. CatalogFromNodes ToLower nodes manifest = Ret (c, e) \<longrightarrow>
                  c = zeroCatalog \<and> e \<noteq> None) \<and>
         (\<forall>ns. CatalogFromNodes ToLower ns manifest
                 = CatalogFromNodes ToLower (filter isObject ns) manifest)"
proof -
  from NewTableFromNode_malformed [OF assms(2)]
  obtain err where "NewTableFromNode ToLower node manifest = Ret (zeroTable, Some err)" by blast
  from catalogLoop_first_malformed [OF this, of before rest "[]"] assms(1)
  have d: "(CatalogFromNodes ToLower nodes manifest = Panic \<and>
            (\<exists>obj. JObj obj \<in> set before \<and> NewTableFromNode ToLower obj manifest = Panic)) \<or>
           (\<exists>err. CatalogFromNodes ToLower nodes manifest = Ret (zeroCatalog, Some err))"
    by (simp add: CatalogFromNodes_def)
  have s: "\<forall>ns. CatalogFromNodes ToLower ns manifest
                 = CatalogFromNodes ToLower (filter isObject ns) manifest"
    using catalogLoop_skips_non_objects [of ToLower _ manifest "[]"]
    by (simp add: CatalogFromNodes_def)
  from d s show ?thesis by auto
qed

theorem C5_malformed_object_node_aborts_witness:
  "[JObj [(''unique_id'', JStr ''model.p.t'')], JNull, JObj [(''columns'', JObj [])]]
     = [JObj [(''unique_id'', JStr ''model.p.t'')], JNull] @ JObj [(''columns'', JObj [])] # [] \<and>
   getString [(''columns'', JObj [])] ''unique_id'' = None \<and>
   NewTableFromNode asciiToLower [(''unique_id'', JStr ''model.p.t'')]
     \<lparr>Sources = [], Models = [(''model.p.t'', [(''name'', JStr ''dev.t'')])],
      Seeds = [], Snapshots = [], Tests = []\<rparr>
   = Ret (\<lparr>t_UniqueID = ''model.p.t'', t_Name = ''dev.t'', t_OriginalFilePath = [],
           t_Columns = []\<rparr>, None) \<and>
   (\<exists>err. CatalogFromNodes asciiToLower
      [JObj [(''unique_id'', JStr ''model.p.t'')], JNull, JObj [(''columns'', JObj [])]]
      \<lparr>Sources = [], Models = [(''model.p.t'', [(''name'', JStr ''dev.t'')])],
       Seeds = [], Snapshots = [], Tests = []\<rparr>
    = Ret (zeroCatalog, Some err))"
proof -
  let ?good = "[(''unique_id'', JStr ''model.p.t'')]"
  let ?bad = "[(''columns'', JObj [])]"
  let ?m = "\<lparr>Sources = [], Models = [(''model.p.t'', [(''name'', JStr ''dev.t'')])],
      Seeds = [], Snapshots = [], Tests = []\<rparr>"
  have h1: "[JObj ?good, JNull, JObj ?bad] = [JObj ?good, JNull] @ JObj ?bad # []" by simp
  have h2: "getString ?bad ''unique_id'' = None \<or>
         (\<exists>uniqueID err. getString ?bad ''unique_id'' = Some uniqueID \<and>
                          snd (GetTable ?m uniqueID) = Some err)"
    by (simp add: getString_def)
  have g: "NewTableFromNode asciiToLower ?good ?m
             = Ret (\<lparr>t_UniqueID = ''model.p.t'', t_Name = ''dev.t'', t_OriginalFilePath = [],
                     t_Columns = []\<rparr>, None)"
    by code_simp
  then have h3: "\<forall>obj. JObj obj \<in> set [JObj ?good, JNull] \<longrightarrow>
                   NewTableFromNode asciiToLower obj ?m \<noteq> Panic"
    by simp
  from C5_malformed_object_node_aborts [OF h1 h2, where ToLower = asciiToLower] h3
  have "\<exists>err. CatalogFromNodes asciiToLower [JObj ?good, JNull, JObj ?bad] ?m
                = Ret (zeroCatalog, Some err)"
    by blast
  with h1 h2 g show ?thesis by (simp add: getString_def)
qed

text \<open>The other way in which no error is returned: the first node resolves, the name
  of one of its columns is not a string, and the program panics before the second
  node, which has no \<^verbatim>\<open>unique_id\<close>, is reached.\<close>

lemma CatalogFromNodes_panics_before_malformed_node:
  "CatalogFromNodes asciiToLower
     [JObj [(''unique_id'', JStr ''model.p.t''), (''columns'', JObj [(''id'', JObj [])])],
      JObj [(''columns'', JObj [])]]
     \<lparr>Sources = [], Models = [(''model.p.t'', [(''name'', JStr ''dev.t'')])],
      Seeds = [], Snapshots = [], Tests = []\<rparr>
   = Panic"
  by (simp add: CatalogFromNodes_def NewTableFromNode_def GetTable_def getString_def
        getObject_def stringOrEmpty_def NewColumnFromNode_def)

section \<open>Filtering by path\<close>

lemma matchesFilter_iff:
  "matchesFilter sep originalPath modelPathFilter \<longleftrightarrow>
     (\<exists>filt \<in> set modelPathFilter. HasPrefix originalPath (ToSlash sep filt))"
  by (induction modelPathFilter) (auto simp: Let_def)

lemma filterLoop_lookup:
  "distinct (map fst tables) \<Longrightarrow>
   map_of (filterLoop sep modelPathFilter tables filtered) k =
     (case map_of tables k of
        Some table \<Rightarrow>
          if matchesFilter sep (ToSlash sep (t_OriginalFilePath table)) modelPathFilter
          then Some table else map_of filtered k
      | None \<Rightarrow> map_of filtered k)"
proof (induction tables arbitrary: filtered)
  case Nil
  then show ?case by simp
next
  case (Cons a tables)
  obtain tableID table where a: "a = (tableID, table)" by (cases a)
  from Cons.prems a have d: "distinct (map fst tables)" and n: "map_of tables tableID = None"
    by (auto simp: map_of_eq_None_iff)
  show ?case
    using Cons.IH [OF d] a n by (auto simp: Let_def update_conv' split: option.split)
qed

lemma filterLoopS_store:
  "filterLoopS sep modelPathFilter tables filtered s =
     s[filtered := filterLoop sep modelPathFilter tables (s ! filtered)]"
proof (induction tables arbitrary: s)
  case Nil
  then show ?case by simp
next
  case (Cons a tables)
  obtain tableID table where a: "a = (tableID, table)" by (cases a)
  show ?case
  proof (cases "filtered < length s")
    case True
    then show ?thesis using Cons.IH a by (simp add: Let_def)
  next
    case False
    then have "length s \<le> filtered" by simp
    then show ?thesis using Cons.IH a by (simp add: Let_def list_update_beyond)
  qed
qed

lemma FilterTablesS_pure:
  "c < length s \<Longrightarrow>
   FilterTablesS sep s c modelPathFilter =
     (s @ [Tables (FilterTables sep \<lparr>Tables = s ! c\<rparr> modelPathFilter)], length s)"
  by (simp add: FilterTablesS_def FilterTables_def filterLoopS_store nth_append)

lemma matchesFilter_set:
  "set modelPathFilter' = set modelPathFilter \<Longrightarrow>
   matchesFilter sep originalPath modelPathFilter' = matchesFilter sep originalPath modelPathFilter"
  by (simp add: matchesFilter_iff)

lemma filterLoop_set:
  "set modelPathFilter' = set modelPathFilter \<Longrightarrow>
   filterLoop sep modelPathFilter' tables filtered = filterLoop sep modelPathFilter tables filtered"
proof (induction tables arbitrary: filtered)
  case Nil
  then show ?case by simp
next
  case (Cons a tables)
  obtain tableID table where a: "a = (tableID, table)" by (cases a)
  show ?case
    using Cons.IH [OF Cons.prems] a matchesFilter_set [OF Cons.prems]
    by (simp add: Let_def)
qed

text \<open>
  Claim C6: \<^verbatim>\<open>FilterTables\<close> retains a table exactly when its origin path, with the
  separators rewritten to slashes, starts with one of the filters, rewritten in the same
  way. The result is a new map (a cell that the store did not have), every map that
  existed before the call, the \<^verbatim>\<open>Tables\<close> map of the input catalog among them, is
  what it was, and a list of filters with the same members in another order gives the
  same result. The \<^verbatim>\<open>Tables\<close> map of the input has one binding per key.
\<close>

theorem C6_FilterTables_retains_matching_tables:
  assumes "c < length s"
    and "distinct (map fst (s ! c))"
    and "FilterTablesS sep s c modelPathFilter = (s', filtered)"
  shows "filtered = length s \<and> length s' = Suc (length s) \<and>
         (\<forall>a < length s. s' ! a = s ! a) \<and>
         s' ! filtered = Tables (FilterTables sep \<lparr>Tables = s ! c\<rparr> modelPathFilter) \<and>
         (\<forall>tableID table.
            map_of (s' ! filtered) tableID = Some table \<longleftrightarrow>
              map_of (s ! c) tableID = Some table \<and>
              (\<exists>filt \<in> set modelPathFilter.
                 HasPrefix (ToSlash sep (t_OriginalFilePath table)) (ToSlash sep filt))) \<and>
         (\<forall>modelPathFilter'. set modelPathFilter' = set modelPathFilter \<longrightarrow>
            FilterTablesS sep s c modelPathFilter' = (s', filtered))"
proof -
  let ?res = "Tables (FilterTables sep \<lparr>Tables = s ! c\<rparr> modelPathFilter)"
  from FilterTablesS_pure [OF assms(1), of sep modelPathFilter] assms(3)
  have s': "s' = s @ [?res]" and f: "filtered = length s" by simp_all
  have unchanged: "\<forall>a < length s. s' ! a = s ! a" using s' by (simp add: nth_append)
  have cell: "s' ! filtered = ?res" using s' f by simp
  have lookup: "map_of ?res tableID = Some table \<longleftrightarrow>
          map_of (s ! c) tableID = Some table \<and>
          (\<exists>filt \<in> set modelPathFilter.
             HasPrefix (ToSlash sep (t_OriginalFilePath table)) (ToSlash sep filt))"
    for tableID table
    using filterLoop_lookup [OF assms(2), of sep modelPathFilter "[]" tableID]
    by (auto simp: FilterTables_def matchesFilter_iff split: option.splits if_splits)
  have order: "FilterTablesS sep s c modelPathFilter' = (s', filtered)"
    if "set modelPathFilter' = set modelPathFilter" for modelPathFilter'
    using FilterTablesS_pure [OF assms(1), of sep modelPathFilter'] filterLoop_set [OF that] s' f
    by (simp add: FilterTables_def)
  show ?thesis using s' f unchanged cell lookup order by simp
qed

theorem C6_FilterTables_retains_matching_tables_witness:
  "FilterTablesS (CHR 0x5C)
     [[(''model.p.a'', \<lparr>t_UniqueID = ''model.p.a'', t_Name = ''dev.a'',
          t_OriginalFilePath = ''models'' @ [CHR 0x5C] @ ''marts'' @ [CHR 0x5C] @ ''a.sql'',
          t_Columns = []\<rparr>),
       (''model.p.b'', \<lparr>t_UniqueID = ''model.p.b'', t_Name = ''dev.b'',
          t_OriginalFilePath = ''models/staging/b.sql'', t_Columns = []\<rparr>)]]
     0 [''models/marts'']
   = ([[(''model.p.a'', \<lparr>t_UniqueID = ''model.p.a'', t_Name = ''dev.a'',
          t_OriginalFilePath = ''models'' @ [CHR 0x5C] @ ''marts'' @ [CHR 0x5C] @ ''a.sql'',
          t_Columns = []\<rparr>),
        (''model.p.b'', \<lparr>t_UniqueID = ''model.p.b'', t_Name = ''dev.b'',
          t_OriginalFilePath = ''models/staging/b.sql'', t_Columns = []\<rparr>)],
       [(''model.p.a'', \<lparr>t_UniqueID = ''model.p.a'', t_Name = ''dev.a'',
          t_OriginalFilePath = ''models'' @ [CHR 0x5C] @ ''marts'' @ [CHR 0x5C] @ ''a.sql'',
          t_Columns = []\<rparr>)]], 1)
   \<and> FilterTablesS (CHR 0x5C)
     [[(''model.p.a'', \<lparr>t_UniqueID = ''model.p.a'', t_Name = ''dev.a'',
          t_OriginalFilePath = ''models'' @ [CHR 0x5C] @ ''marts'' @ [CHR 0x5C] @ ''a.sql'',
          t_Columns = []\<rparr>),
       (''model.p.b'', \<lparr>t_UniqueID = ''model.p.b'', t_Name = ''dev.b'',
          t_OriginalFilePath = ''models/staging/b.sql'', t_Columns = []\<rparr>)]]
     0 [''models/marts'', ''models/marts'']
   = FilterTablesS (CHR 0x5C)
     [[(''model.p.a'', \<lparr>t_UniqueID = ''model.p.a'', t_Name = ''dev.a'',
          t_OriginalFilePath = ''models'' @ [CHR 0x5C] @ ''marts'' @ [CHR 0x5C] @ ''a.sql'',
          t_Columns = []\<rparr>),
       (''model.p.b'', \<lparr>t_UniqueID = ''model.p.b'', t_Name = ''dev.b'',
          t_OriginalFilePath = ''models/staging/b.sql'', t_Columns = []\<rparr>)]]
     0 [''models/marts'']"
proof -
  let ?a = "(''model.p.a'', \<lparr>t_UniqueID = ''model.p.a'', t_Name = ''dev.a'',
          t_OriginalFilePath = ''models'' @ [CHR 0x5C] @ ''marts'' @ [CHR 0x5C] @ ''a.sql'',
          t_Columns = []\<rparr>)"
  let ?b = "(''model.p.b'', \<lparr>t_UniqueID = ''model.p.b'', t_Name = ''dev.b'',
          t_OriginalFilePath = ''models/staging/b.sql'', t_Columns = []\<rparr>)"
  have run: "FilterTablesS (CHR 0x5C) [[?a, ?b]] 0 [''models/marts''] = ([[?a, ?b], [?a]], 1)"
    by (simp add: FilterTablesS_def ToSlash_def HasPrefix_def)
  have h1: "(0::nat) < length [[?a, ?b]]" by simp
  have h2: "distinct (map fst ([[?a, ?b]] ! 0))" by simp
  from C6_FilterTables_retains_matching_tables [OF h1 h2 run]
  have "\<forall>modelPathFilter'. set modelPathFilter' = set [''models/marts''] \<longrightarrow>
          FilterTablesS (CHR 0x5C) [[?a, ?b]] 0 modelPathFilter' = ([[?a, ?b], [?a]], 1)"
    by blast
  then have "FilterTablesS (CHR 0x5C) [[?a, ?b]] 0 [''models/marts'', ''models/marts'']
               = ([[?a, ?b], [?a]], 1)"
    by simp
  with run show ?thesis by simp
qed

section \<open>Errors of the computation\<close>

lemma writeCoverageReport_errors:
  "writeCoverageReport writeOk report \<noteq> Some NoTablesAfterFilter"
  by (simp add: writeCoverageReport_def)

lemma computeJSONReport_empty:
  "computeJSONReport \<lparr>Tables = []\<rparr> covType =
     \<lparr>jr_CovType = covType, jr_Covered = 0, jr_Total = 0, jr_Coverage = Fin 0, jr_Tables = []\<rparr>"
  by (simp add: computeJSONReport_def)

text \<open>
  Claim C7: when a non-empty list of filters is given and the filtered catalog has no
  table, \<^verbatim>\<open>doCompute\<close> returns the error "aucune table apres filtrage". Without a
  filter \<^verbatim>\<open>doCompute\<close> never returns this error, whatever the two files hold, and
  for a project without any table it returns \<^verbatim>\<open>nil\<close> when the report can be written.
\<close>

theorem C7_empty_result_after_filtering_is_an_error:
  "(modelPathFilter \<noteq> [] \<and> loadFiles ToLower sep manifestFile catalogFile = Ret (catalog, None) \<and>
      Tables (FilterTables sep catalog modelPathFilter) = [] \<longrightarrow>
      doCompute ToLower sep manifestFile catalogFile writeOk covType modelPathFilter
        = Ret (Some NoTablesAfterFilter)) \<and>
   doCompute ToLower sep manifestFile catalogFile writeOk covType [] \<noteq> Ret (Some NoTablesAfterFilter) \<and>
   (loadFiles ToLower sep manifestFile catalogFile = Ret (\<lparr>Tables = []\<rparr>, None) \<longrightarrow>
      doCompute ToLower sep manifestFile catalogFile True covType [] = Ret None)"
proof (intro conjI impI)
  assume "modelPathFilter \<noteq> [] \<and> loadFiles ToLower sep manifestFile catalogFile = Ret (catalog, None) \<and>
      Tables (FilterTables sep catalog modelPathFilter) = []"
  then show "doCompute ToLower sep manifestFile catalogFile writeOk covType modelPathFilter
        = Ret (Some NoTablesAfterFilter)"
    by (simp add: doCompute_def Let_def)
next
  show "doCompute ToLower sep manifestFile catalogFile writeOk covType [] \<noteq> Ret (Some NoTablesAfterFilter)"
  proof (cases "loadFiles ToLower sep manifestFile catalogFile")
    case Panic
    then show ?thesis by (simp add: doCompute_def)
  next
    case (Ret r)
    obtain c err where r: "r = (c, err)" by (cases r)
    show ?thesis
    proof (cases err)
      case None
      with Ret r show ?thesis by (simp add: doCompute_def writeCoverageReport_errors)
    next
      case (Some e)
      with loadFiles_errors Ret r have "e \<noteq> NoTablesAfterFilter" by blast
      with Ret r Some show ?thesis by (simp add: doCompute_def)
    qed
  qed
next
  assume "loadFiles ToLower sep manifestFile catalogFile = Ret (\<lparr>Tables = []\<rparr>, None)"
  then show "doCompute ToLower sep manifestFile catalogFile True covType [] = Ret None"
    by (simp add: doCompute_def computeJSONReport_empty writeCoverageReport_def
          marshalFails_def unsupportedValue_def)
qed

theorem C7_empty_result_after_filtering_is_an_error_witness:
  "loadFiles asciiToLower CHR ''/''
     (Decoded (JObj [(''nodes'', JObj [(''m'',
        JObj [(''resource_type'', JStr ''model''), (''unique_id'', JStr ''m''),
              (''original_file_path'', JStr ''models/a.sql'')])])]))
     (Decoded (JObj [(''nodes'', JObj [(''m'', JObj [(''unique_id'', JStr ''m'')])])]))
   = Ret (\<lparr>Tables = [(''m'', \<lparr>t_UniqueID = ''m'', t_Name = ''.'',
                               t_OriginalFilePath = ''models/a.sql'', t_Columns = []\<rparr>)]\<rparr>, None) \<and>
   doCompute asciiToLower CHR ''/''
     (Decoded (JObj [(''nodes'', JObj [(''m'',
        JObj [(''resource_type'', JStr ''model''), (''unique_id'', JStr ''m''),
              (''original_file_path'', JStr ''models/a.sql'')])])]))
     (Decoded (JObj [(''nodes'', JObj [(''m'', JObj [(''unique_id'', JStr ''m'')])])]))
     True ''doc'' [''models/b'']
   = Ret (Some NoTablesAfterFilter) \<and>
   loadFiles asciiToLower CHR ''/'' (Decoded (JObj [])) (Decoded (JObj [])) = Ret (\<lparr>Tables = []\<rparr>, None) \<and>
   doCompute asciiToLower CHR ''/'' (Decoded (JObj [])) (Decoded (JObj [])) True ''doc'' [] = Ret None"
proof -
  let ?mf = "Decoded (JObj [(''nodes'', JObj [(''m'',
        JObj [(''resource_type'', JStr ''model''), (''unique_id'', JStr ''m''),
              (''original_file_path'', JStr ''models/a.sql'')])])])"
  let ?cf = "Decoded (JObj [(''nodes'', JObj [(''m'', JObj [(''unique_id'', JStr ''m'')])])])"
  let ?c = "\<lparr>Tables = [(''m'', \<lparr>t_UniqueID = ''m'', t_Name = ''.'',
                               t_OriginalFilePath = ''models/a.sql'', t_Columns = []\<rparr>)]\<rparr>"
  have m: "loadManifest asciiToLower CHR ''/'' ?mf =
             Ret (Some \<lparr>Sources = [],
                        Models = [(''m'', [(''resource_type'', JStr ''model''),
                                           (''unique_id'', JStr ''m''),
                                           (''original_file_path'', JStr ''models/a.sql''),
                                           (''name'', JStr ''.'')])],
                        Seeds = [], Snapshots = [], Tests = []\<rparr>, None)"
    by (simp add: loadManifest_def unmarshalMap_def getObject_def ManifestFromNodes_def
          manifestStep_def stringOrEmpty_def getString_def normalizeTable_def ToSlash_def
          asciiToLower_def lowerChar_def emptyManifest_def Let_def)
  have l: "loadFiles asciiToLower CHR ''/'' ?mf ?cf = Ret (?c, None)"
    by (simp add: loadFiles_def m loadCatalog_def unmarshalMap_def catalogNodesOf_def
          getObject_def HasPrefix_def CatalogFromNodes_def NewTableFromNode_def getString_def
          GetTable_def stringOrEmpty_def asciiToLower_def lowerChar_def annotateTable_def)
  have f: "Tables (FilterTables CHR ''/'' ?c [''models/b'']) = []"
    by (simp add: FilterTables_def ToSlash_def HasPrefix_def)
  have e: "loadFiles asciiToLower CHR ''/'' (Decoded (JObj [])) (Decoded (JObj [])) = Ret (\<lparr>Tables = []\<rparr>, None)"
    by (simp add: loadFiles_def loadManifest_def unmarshalMap_def getObject_def
          ManifestFromNodes_def emptyManifest_def loadCatalog_def catalogNodesOf_def
          CatalogFromNodes_def)
  from C7_empty_result_after_filtering_is_an_error
    [where ToLower = asciiToLower, of "[''models/b'']" "CHR ''/''" ?mf ?cf ?c True "''doc''"] l f
  have d1: "doCompute asciiToLower CHR ''/'' ?mf ?cf True ''doc'' [''models/b''] = Ret (Some NoTablesAfterFilter)"
    by simp
  from C7_empty_result_after_filtering_is_an_error
    [where ToLower = asciiToLower, of "[]" "CHR ''/''" "Decoded (JObj [])" "Decoded (JObj [])" ?c True "''doc''"] e
  have d2: "doCompute asciiToLower CHR ''/'' (Decoded (JObj [])) (Decoded (JObj [])) True ''doc'' [] = Ret None"
    by simp
  from l d1 e d2 show ?thesis by simp
qed

section \<open>Association lists updated in place\<close>

text \<open>Both annotation loops of \<^verbatim>\<open>loadFiles\<close> visit the bindings of a map and store a
  new value under each visited key. On a map with one binding per key this is a \<open>map\<close>
  over the bindings.\<close>

lemma update_self_lookup:
  "distinct (map fst xs) \<Longrightarrow>
   map_of (fold (\<lambda>(k, v). AList.update k (g k v)) xs al) k =
     (case map_of xs k of Some v \<Rightarrow> Some (g k v) | None \<Rightarrow> map_of al k)"
proof (induction xs arbitrary: al)
  case Nil
  then show ?case by simp
next
  case (Cons a xs)
  obtain k0 v0 where a: "a = (k0, v0)" by (cases a)
  from Cons.prems a have d: "distinct (map fst xs)" and n: "map_of xs k0 = None"
    by (auto simp: map_of_eq_None_iff)
  show ?case using Cons.IH [OF d] a n by (auto simp: update_conv' split: option.split)
qed

lemma update_self_keys:
  "fst ` set xs \<subseteq> fst ` set al \<Longrightarrow>
   map fst (fold (\<lambda>(k, v). AList.update k (g k v)) xs al) = map fst al"
proof (induction xs arbitrary: al)
  case Nil
  then show ?case by simp
next
  case (Cons a xs)
  obtain k0 v0 where a: "a = (k0, v0)" by (cases a)
  from Cons.prems a have k0: "k0 \<in> fst ` set al" by simp
  then have keys: "map fst (AList.update k0 (g k0 v0) al) = map fst al"
    by (simp add: update_keys)
  then have "fst ` set (AList.update k0 (g k0 v0) al) = fst ` set al"
    by (metis list.set_map)
  with Cons.prems have "fst ` set xs \<subseteq> fst ` set (AList.update k0 (g k0 v0) al)" by simp
  from Cons.IH [OF this] keys a show ?case by simp
qed

lemma alist_eqI:
  assumes "map fst a = map fst b"
    and "distinct (map fst a)"
    and "\<And>k. map_of a k = map_of b k"
  shows "a = b"
proof (rule nth_equalityI)
  from assms(1) show len: "length a = length b" by (metis length_map)
  fix i assume i: "i < length a"
  with len have ib: "i < length b" by simp
  from assms(1) i ib have fst_eq: "fst (a ! i) = fst (b ! i)" by (metis nth_map)
  from assms(1,2) have db: "distinct (map fst b)" by simp
  have "map_of a (fst (a ! i)) = Some (snd (a ! i))"
    using assms(2) i by (simp add: map_of_eq_Some_iff)
  moreover have "map_of b (fst (b ! i)) = Some (snd (b ! i))"
    using db ib by (simp add: map_of_eq_Some_iff)
  ultimately have "snd (a ! i) = snd (b ! i)" using assms(3) fst_eq by simp
  with fst_eq show "a ! i = b ! i" by (simp add: prod_eq_iff)
qed

lemma map_of_map_keyed:
  "map_of (map (\<lambda>(k, v). (k, g k v)) al) k = map_option (g k) (map_of al k)"
  by (induction al) auto

lemma update_self_map:
  assumes "distinct (map fst al)"
  shows "fold (\<lambda>(k, v). AList.update k (g k v)) al al = map (\<lambda>(k, v). (k, g k v)) al"
proof (rule alist_eqI)
  have keys: "map fst (fold (\<lambda>(k, v). AList.update k (g k v)) al al) = map fst al"
    by (rule update_self_keys) simp
  have "map fst (map (\<lambda>(k, v). (k, g k v)) al) = map fst al"
    by (induction al) auto
  with keys show "map fst (fold (\<lambda>(k, v). AList.update k (g k v)) al al)
                    = map fst (map (\<lambda>(k, v). (k, g k v)) al)" by simp
  from keys assms show "distinct (map fst (fold (\<lambda>(k, v). AList.update k (g k v)) al al))"
    by simp
  fix k
  show "map_of (fold (\<lambda>(k, v). AList.update k (g k v)) al al) k
          = map_of (map (\<lambda>(k, v). (k, g k v)) al) k"
    using update_self_lookup [OF assms, of g al k]
    by (simp add: map_of_map_keyed split: option.split)
qed

lemma annotateColumns_fold:
  "annotateColumns mc mt xs columns =
     fold (\<lambda>(k, col). AList.update k (annotateColumn mc mt k col)) xs columns"
  by (induction xs arbitrary: columns) auto

lemma annotateTables_fold:
  "annotateTables manifest xs tables =
     fold (\<lambda>(k, t). AList.update k (annotateTable manifest k t)) xs tables"
  by (induction xs arbitrary: tables) auto

lemma annotateColumns_map:
  "distinct (map fst columns) \<Longrightarrow>
   annotateColumns mc mt columns columns =
     map (\<lambda>(k, col). (k, annotateColumn mc mt k col)) columns"
  by (simp add: annotateColumns_fold update_self_map)

lemma annotateTables_map:
  "distinct (map fst tables) \<Longrightarrow>
   annotateTables manifest tables tables =
     map (\<lambda>(k, t). (k, annotateTable manifest k t)) tables"
  by (simp add: annotateTables_fold update_self_map)

lemma set_update_subset:
  "x \<in> set (AList.update k v al) \<Longrightarrow> x = (k, v) \<or> x \<in> set al"
  by (induction al) (auto split: if_splits)

section \<open>The tables of the catalog\<close>

lemma tableColumns_result:
  assumes "tableColumns ToLower cols acc = Ret res"
    and "distinct (map fst acc)"
    and "\<forall>(k, col) \<in> set acc. c_Name col = k"
  shows "distinct (map fst res) \<and> (\<forall>(k, col) \<in> set res. c_Name col = k) \<and>
         fst ` set res = fst ` set acc \<union>
           {ToLower s | s k colNode. (k, JObj colNode) \<in> set cols \<and>
                                      getString colNode ''name'' = Some s}"
  using assms
proof (induction cols arbitrary: acc)
  case Nil
  then show ?case by simp
next
  case (Cons a cols)
  obtain k v where a: "a = (k, v)" by (cases a)
  show ?case
  proof (cases "\<exists>colNode. v = JObj colNode")
    case False
    with Cons.prems(1) a have "tableColumns ToLower cols acc = Ret res"
      by (cases v) simp_all
    from Cons.IH [OF this Cons.prems(2,3)] False a show ?thesis by auto
  next
    case True
    then obtain colNode where v: "v = JObj colNode" by blast
    from Cons.prems(1) a v obtain s where s: "getString colNode ''name'' = Some s"
      by (cases "getString colNode ''name''") (simp_all add: NewColumnFromNode_def)
    let ?col = "\<lparr>c_Name = ToLower s, c_Doc = False, c_Test = False\<rparr>"
    let ?acc = "AList.update (ToLower s) ?col acc"
    from Cons.prems(1) a v s have run: "tableColumns ToLower cols ?acc = Ret res"
      by (simp add: NewColumnFromNode_def)
    have d: "distinct (map fst ?acc)" using Cons.prems(2) by (simp add: distinct_update)
    have n: "\<forall>(k, col) \<in> set ?acc. c_Name col = k"
      using Cons.prems(3) set_update_subset [of _ "ToLower s" ?col acc] by fastforce
    have keys: "fst ` set ?acc = {ToLower s} \<union> fst ` set acc" by (rule dom_update)
    have names: "{ToLower s' | s' k' colNode'. (k', JObj colNode') \<in> set (a # cols) \<and>
                     getString colNode' ''name'' = Some s'}
               = {ToLower s} \<union> {ToLower s' | s' k' colNode'. (k', JObj colNode') \<in> set cols \<and>
                     getString colNode' ''name'' = Some s'}"
      using a v s by auto
    from Cons.IH [OF run d n] keys names show ?thesis by auto
  qed
qed

lemma NewTableFromNode_result:
  assumes "NewTableFromNode ToLower node manifest = Ret (t, None)"
  shows "getString node ''unique_id'' = Some (t_UniqueID t) \<and>
         distinct (map fst (t_Columns t)) \<and>
         (\<forall>(k, col) \<in> set (t_Columns t). c_Name col = k) \<and>
         fst ` set (t_Columns t) =
           (case getObject node ''columns'' of
              Some columnsRaw \<Rightarrow>
                {ToLower s | s k colNode. (k, JObj colNode) \<in> set columnsRaw \<and>
                                           getString colNode ''name'' = Some s}
            | None \<Rightarrow> {})"
proof -
  from assms obtain uniqueID where u: "getString node ''unique_id'' = Some uniqueID"
    by (cases "getString node ''unique_id''") (simp_all add: NewTableFromNode_def)
  obtain manifestTable err where g: "GetTable manifest uniqueID = (manifestTable, err)"
    by (cases "GetTable manifest uniqueID")
  from assms u g have e: "err = None"
    by (cases err) (simp_all add: NewTableFromNode_def)
  define colsRes where
    "colsRes = (case getObject node ''columns'' of
                  Some columnsRaw \<Rightarrow> tableColumns ToLower columnsRaw [] | None \<Rightarrow> Ret [])"
  from assms u g e obtain cols where c: "colsRes = Ret cols"
    by (cases colsRes) (simp_all add: NewTableFromNode_def colsRes_def)
  from assms u g e c obtain n where n: "getString manifestTable ''name'' = Some n"
    by (cases "getString manifestTable ''name''")
       (simp_all add: NewTableFromNode_def colsRes_def Let_def)
  from assms u g e c n have t: "t_UniqueID t = uniqueID" "t_Columns t = cols"
    by (auto simp: NewTableFromNode_def colsRes_def Let_def)
  have "distinct (map fst cols) \<and> (\<forall>(k, col) \<in> set cols. c_Name col = k) \<and>
        fst ` set cols =
           (case getObject node ''columns'' of
              Some columnsRaw \<Rightarrow>
                {ToLower s | s k colNode. (k, JObj colNode) \<in> set columnsRaw \<and>
                                           getString colNode ''name'' = Some s}
            | None \<Rightarrow> {})"
  proof (cases "getObject node ''columns''")
    case None
    with c show ?thesis by (simp add: colsRes_def)
  next
    case (Some columnsRaw)
    with c have "tableColumns ToLower columnsRaw [] = Ret cols" by (simp add: colsRes_def)
    from tableColumns_result [OF this] Some show ?thesis by simp
  qed
  with u t show ?thesis by simp
qed

lemma catalogLoop_result:
  assumes "catalogLoop ToLower nodes manifest tables = Ret (c, None)"
    and "distinct (map fst tables)"
  shows "distinct (map fst (Tables c)) \<and>
         (\<forall>(tableID, t) \<in> set (Tables c).
            (tableID, t) \<in> set tables \<or>
            (\<exists>node. JObj node \<in> set nodes \<and> NewTableFromNode ToLower node manifest = Ret (t, None) \<and>
                    tableID = t_UniqueID t))"
  using assms
proof (induction nodes arbitrary: tables)
  case Nil
  then show ?case by auto
next
  case (Cons n nodes)
  show ?case
  proof (cases "\<exists>node. n = JObj node")
    case False
    with Cons.prems(1) have "catalogLoop ToLower nodes manifest tables = Ret (c, None)"
      by (cases n) simp_all
    from Cons.IH [OF this Cons.prems(2)] show ?thesis by auto
  next
    case True
    then obtain node where n: "n = JObj node" by blast
    from Cons.prems(1) n obtain r where r: "NewTableFromNode ToLower node manifest = Ret r"
      by (cases "NewTableFromNode ToLower node manifest") simp_all
    obtain table err where p: "r = (table, err)" by (cases r)
    from Cons.prems(1) n r p have e: "err = None"
      by (cases err) (simp_all add: zeroCatalog_def)
    let ?tables = "AList.update (t_UniqueID table) table tables"
    from Cons.prems(1) n r p e have run: "catalogLoop ToLower nodes manifest ?tables = Ret (c, None)"
      by simp
    have d: "distinct (map fst ?tables)" using Cons.prems(2) by (simp add: distinct_update)
    from Cons.IH [OF run d]
    have ih: "distinct (map fst (Tables c))"
      "\<forall>(tableID, t) \<in> set (Tables c).
            (tableID, t) \<in> set ?tables \<or>
            (\<exists>node. JObj node \<in> set nodes \<and> NewTableFromNode ToLower node manifest = Ret (t, None) \<and>
                    tableID = t_UniqueID t)"
      by simp_all
    have "(tableID, t) \<in> set tables \<or>
            (\<exists>node. JObj node \<in> set (n # nodes) \<and>
                    NewTableFromNode ToLower node manifest = Ret (t, None) \<and> tableID = t_UniqueID t)"
      if "(tableID, t) \<in> set (Tables c)" for tableID t
    proof -
      from ih(2) that
      consider "(tableID, t) \<in> set ?tables"
        | "\<exists>node. JObj node \<in> set nodes \<and> NewTableFromNode ToLower node manifest = Ret (t, None) \<and>
                  tableID = t_UniqueID t"
        by blast
      then show ?thesis
      proof cases
        case 1
        from set_update_subset [OF 1]
        show ?thesis
        proof
          assume "(tableID, t) = (t_UniqueID table, table)"
          with r p e n show ?thesis by auto
        next
          assume "(tableID, t) \<in> set tables"
          then show ?thesis by simp
        qed
      next
        case 2
        then show ?thesis by auto
      qed
    qed
    with ih(1) show ?thesis by auto
  qed
qed

lemma annotateTable_columns:
  "distinct (map fst (t_Columns t)) \<Longrightarrow>
   t_Columns (annotateTable manifest tableID t) =
     map (\<lambda>(k, col).
            (k, annotateColumn
                  (case manifestTableFor manifest tableID of
                     Some mt \<Rightarrow> getObject mt ''columns'' | None \<Rightarrow> None)
                  (testsOfTable (Tests manifest) tableID) k col))
         (t_Columns t)"
  by (simp add: annotateTable_def Let_def annotateColumns_map)

lemma annotateTable_keys:
  "distinct (map fst (t_Columns t)) \<Longrightarrow>
   map fst (t_Columns (annotateTable manifest tableID t)) = map fst (t_Columns t)"
  by (simp add: annotateTable_columns split_def comp_def)

lemma loadFiles_result:
  assumes "loadFiles ToLower sep manifestFile catalogFile = Ret (catalog, None)"
  shows "\<exists>manifest j catalogJSON c0.
           loadManifest ToLower sep manifestFile = Ret (Some manifest, None) \<and>
           catalogFile = Decoded j \<and> unmarshalMap j = Some catalogJSON \<and>
           CatalogFromNodes ToLower (catalogNodesOf catalogJSON) manifest = Ret (c0, None) \<and>
           distinct (map fst (Tables c0)) \<and>
           Tables catalog = map (\<lambda>(k, t). (k, annotateTable manifest k t)) (Tables c0)"
proof -
  from assms obtain r where r: "loadManifest ToLower sep manifestFile = Ret r"
    by (cases "loadManifest ToLower sep manifestFile") (simp_all add: loadFiles_def)
  obtain mp err where p: "r = (mp, err)" by (cases r)
  from assms r p have e: "err = None" by (cases err) (simp_all add: loadFiles_def)
  from assms r p e obtain manifest where m: "mp = Some manifest"
    by (cases mp) (simp_all add: loadFiles_def)
  from assms r p e m obtain r' where r': "loadCatalog ToLower catalogFile manifest = Ret r'"
    by (cases "loadCatalog ToLower catalogFile manifest") (simp_all add: loadFiles_def)
  obtain c0 err' where p': "r' = (c0, err')" by (cases r')
  from assms r p e m r' p' have e': "err' = None"
    by (cases err') (simp_all add: loadFiles_def)
  from assms r p e m r' p' e'
  have cat: "catalog = c0\<lparr>Tables := annotateTables manifest (Tables c0) (Tables c0)\<rparr>"
    by (simp add: loadFiles_def)
  from r' p' e' obtain j where j: "catalogFile = Decoded j"
    by (cases catalogFile) (simp_all add: loadCatalog_def)
  from r' p' e' j obtain catalogJSON where u: "unmarshalMap j = Some catalogJSON"
    by (cases "unmarshalMap j") (simp_all add: loadCatalog_def)
  from r' p' e' j u
  have c0: "CatalogFromNodes ToLower (catalogNodesOf catalogJSON) manifest = Ret (c0, None)"
    by (simp add: loadCatalog_def)
  then have "catalogLoop ToLower (catalogNodesOf catalogJSON) manifest [] = Ret (c0, None)"
    by (simp add: CatalogFromNodes_def)
  from catalogLoop_result [OF this] have d: "distinct (map fst (Tables c0))" by simp
  from cat d have "Tables catalog = map (\<lambda>(k, t). (k, annotateTable manifest k t)) (Tables c0)"
    by (simp add: annotateTables_map)
  with r p e m j u c0 d show ?thesis by blast
qed

text \<open>
  Claim C9: in the catalog that \<^verbatim>\<open>loadFiles\<close> returns, the keys of the
  \<^verbatim>\<open>Columns\<close> map of every table are the names, in lower case, of the columns of
  one catalog node with the \<^verbatim>\<open>unique_id\<close> of the table (the columns that are JSON
  objects; the name is their field \<^verbatim>\<open>name\<close>). The annotation pass keeps, table by
  table, the list of column keys that \<^verbatim>\<open>CatalogFromNodes\<close> built from the catalog
  nodes: it adds no column of the manifest and removes none of the catalog.
\<close>

theorem C9_columns_come_from_the_catalog:
  assumes "loadFiles ToLower sep manifestFile catalogFile = Ret (catalog, None)"
  shows "\<exists>manifest j catalogJSON c0.
           loadManifest ToLower sep manifestFile = Ret (Some manifest, None) \<and>
           catalogFile = Decoded j \<and> unmarshalMap j = Some catalogJSON \<and>
           CatalogFromNodes ToLower (catalogNodesOf catalogJSON) manifest = Ret (c0, None) \<and>
           map (\<lambda>(tableID, t). (tableID, map fst (t_Columns t))) (Tables catalog)
             = map (\<lambda>(tableID, t). (tableID, map fst (t_Columns t))) (Tables c0) \<and>
           (\<forall>(tableID, table) \<in> set (Tables catalog).
              \<exists>node. JObj node \<in> set (catalogNodesOf catalogJSON) \<and>
                     getString node ''unique_id'' = Some tableID \<and>
                     fst ` set (t_Columns table) =
                       (case getObject node ''columns'' of
                          Some columnsRaw \<Rightarrow>
                            {ToLower s | s k colNode. (k, JObj colNode) \<in> set columnsRaw \<and>
                                                       getString colNode ''name'' = Some s}
                        | None \<Rightarrow> {}))"
proof -
  from loadFiles_result [OF assms]
  obtain manifest j catalogJSON c0 where
    m: "loadManifest ToLower sep manifestFile = Ret (Some manifest, None)" and
    j: "catalogFile = Decoded j" "unmarshalMap j = Some catalogJSON" and
    c0: "CatalogFromNodes ToLower (catalogNodesOf catalogJSON) manifest = Ret (c0, None)" and
    tabs: "Tables catalog = map (\<lambda>(k, t). (k, annotateTable manifest k t)) (Tables c0)"
    by blast
  from c0 have loop: "catalogLoop ToLower (catalogNodesOf catalogJSON) manifest [] = Ret (c0, None)"
    by (simp add: CatalogFromNodes_def)
  have origin: "\<exists>node. JObj node \<in> set (catalogNodesOf catalogJSON) \<and>
                  NewTableFromNode ToLower node manifest = Ret (t0, None) \<and> tableID = t_UniqueID t0"
    if "(tableID, t0) \<in> set (Tables c0)" for tableID t0
    using catalogLoop_result [OF loop] that by auto
  have dcols: "distinct (map fst (t_Columns t0))" if "(tableID, t0) \<in> set (Tables c0)" for tableID t0
    using origin [OF that] NewTableFromNode_result by blast
  have keys: "map (\<lambda>(tableID, t). (tableID, map fst (t_Columns t))) (Tables catalog)
             = map (\<lambda>(tableID, t). (tableID, map fst (t_Columns t))) (Tables c0)"
    unfolding tabs map_map
  proof (rule map_cong [OF refl])
    fix x assume x: "x \<in> set (Tables c0)"
    obtain tableID t0 where p: "x = (tableID, t0)" by (cases x)
    from dcols x p have "distinct (map fst (t_Columns t0))" by blast
    then show "((\<lambda>(tableID, t). (tableID, map fst (t_Columns t))) \<circ>
                (\<lambda>(k, t). (k, annotateTable manifest k t))) x
               = (\<lambda>(tableID, t). (tableID, map fst (t_Columns t))) x"
      using p by (simp add: annotateTable_keys)
  qed
  have cols: "\<exists>node. JObj node \<in> set (catalogNodesOf catalogJSON) \<and>
                     getString node ''unique_id'' = Some tableID \<and>
                     fst ` set (t_Columns table) =
                       (case getObject node ''columns'' of
                          Some columnsRaw \<Rightarrow>
                            {ToLower s | s k colNode. (k, JObj colNode) \<in> set columnsRaw \<and>
                                                       getString colNode ''name'' = Some s}
                        | None \<Rightarrow> {})"
    if "(tableID, table) \<in> set (Tables catalog)" for tableID table
  proof -
    from that tabs obtain t0 where t0: "(tableID, t0) \<in> set (Tables c0)"
      and table: "table = annotateTable manifest tableID t0" by auto
    from origin [OF t0] obtain node where
      node: "JObj node \<in> set (catalogNodesOf catalogJSON)"
        "NewTableFromNode ToLower node manifest = Ret (t0, None)" "tableID = t_UniqueID t0"
      by blast
    from NewTableFromNode_result [OF node(2)]
    have r: "getString node ''unique_id'' = Some (t_UniqueID t0)"
      "distinct (map fst (t_Columns t0))"
      "fst ` set (t_Columns t0) =
           (case getObject node ''columns'' of
              Some columnsRaw \<Rightarrow>
                {ToLower s | s k colNode. (k, JObj colNode) \<in> set columnsRaw \<and>
                                           getString colNode ''name'' = Some s}
            | None \<Rightarrow> {})"
      by simp_all
    have "set (map fst (t_Columns table)) = set (map fst (t_Columns t0))"
      using table annotateTable_keys [OF r(2), of manifest tableID] by simp
    then have "fst ` set (t_Columns table) = fst ` set (t_Columns t0)" by simp
    with node r show ?thesis by auto
  qed
  from m j c0 keys cols show ?thesis by blast
qed
theorem C9_columns_come_from_the_catalog_witness:
  "loadFiles asciiToLower CHR ''/''
     (Decoded (JObj [(''nodes'', JObj [(''m'',
        JObj [(''resource_type'', JStr ''model''), (''unique_id'', JStr ''m''),
              (''columns'', JObj [(''extra'',
                 JObj [(''name'', JStr ''extra''), (''description'', JStr ''x'')])])])])]))
     (Decoded (JObj [(''nodes'', JObj [(''m'',
        JObj [(''unique_id'', JStr ''m''),
              (''columns'', JObj [(''ID'', JObj [(''name'', JStr ''ID'')])])])])]))
   = Ret (\<lparr>Tables = [(''m'', \<lparr>t_UniqueID = ''m'', t_Name = ''.'', t_OriginalFilePath = [],
             t_Columns = [(''id'', \<lparr>c_Name = ''id'', c_Doc = False, c_Test = False\<rparr>)]\<rparr>)]\<rparr>,
          None) \<and>
   (\<exists>node. JObj node \<in> set (catalogNodesOf [(''nodes'', JObj [(''m'',
               JObj [(''unique_id'', JStr ''m''),
                     (''columns'', JObj [(''ID'', JObj [(''name'', JStr ''ID'')])])])])]) \<and>
           getString node ''unique_id'' = Some ''m'' \<and>
           fst ` set [(''id'', \<lparr>c_Name = ''id'', c_Doc = False, c_Test = False\<rparr>)] =
             (case getObject node ''columns'' of
                Some columnsRaw \<Rightarrow>
                  {asciiToLower s | s k colNode. (k, JObj colNode) \<in> set columnsRaw \<and>
                                             getString colNode ''name'' = Some s}
              | None \<Rightarrow> {}))"
proof -
  let ?mf = "Decoded (JObj [(''nodes'', JObj [(''m'',
        JObj [(''resource_type'', JStr ''model''), (''unique_id'', JStr ''m''),
              (''columns'', JObj [(''extra'',
                 JObj [(''name'', JStr ''extra''), (''description'', JStr ''x'')])])])])])"
  let ?cj = "[(''nodes'', JObj [(''m'',
        JObj [(''unique_id'', JStr ''m''),
              (''columns'', JObj [(''ID'', JObj [(''name'', JStr ''ID'')])])])])]"
  let ?cat = "\<lparr>Tables = [(''m'', \<lparr>t_UniqueID = ''m'', t_Name = ''.'', t_OriginalFilePath = [],
             t_Columns = [(''id'', \<lparr>c_Name = ''id'', c_Doc = False, c_Test = False\<rparr>)]\<rparr>)]\<rparr>"
  have l: "loadFiles asciiToLower CHR ''/'' ?mf (Decoded (JObj ?cj)) = Ret (?cat, None)"
    by code_simp
  from C9_columns_come_from_the_catalog [OF l]
  obtain j catalogJSON where j: "Decoded (JObj ?cj) = Decoded j" "unmarshalMap j = Some catalogJSON"
    and a: "\<forall>(tableID, table) \<in> set (Tables ?cat).
              \<exists>node. JObj node \<in> set (catalogNodesOf catalogJSON) \<and>
                     getString node ''unique_id'' = Some tableID \<and>
                     fst ` set (t_Columns table) =
                       (case getObject node ''columns'' of
                          Some columnsRaw \<Rightarrow>
                            {asciiToLower s | s k colNode. (k, JObj colNode) \<in> set columnsRaw \<and>
                                                       getString colNode ''name'' = Some s}
                        | None \<Rightarrow> {})"
    by blast
  from j have "catalogJSON = ?cj" by (auto simp: unmarshalMap_def)
  with a l show ?thesis by simp
qed

section \<open>Coverage of a column\<close>

lemma reportColumns_cols:
  "fst (reportColumns covType cs (cols, c, t)) =
     cols @ map (\<lambda>(k, col). \<lparr>cr_Name = c_Name col, cr_Covered = colCovered covType col,
                               cr_Total = 1, cr_Coverage = fdiv (colCovered covType col) 1\<rparr>) cs"
  by (induction cs arbitrary: cols c t) (auto simp: Let_def)

lemma reportTable_columns:
  "tr_Columns (reportTable covType table) =
     map (\<lambda>(k, col). \<lparr>cr_Name = c_Name col, cr_Covered = colCovered covType col,
                        cr_Total = 1, cr_Coverage = fdiv (colCovered covType col) 1\<rparr>)
         (t_Columns table)"
proof -
  obtain cols c t where r: "reportColumns covType (t_Columns table) ([], 0, 0) = (cols, c, t)"
    by (cases "reportColumns covType (t_Columns table) ([], 0, 0)")
  with reportColumns_cols [of covType "t_Columns table" "[]" 0 0] show ?thesis
    by (simp add: reportTable_def)
qed

lemma IsValidDoc_iff: "IsValidDoc d \<longleftrightarrow> (\<exists>s. d = JStr s \<and> s \<noteq> [])"
  by (cases d) (simp_all add: IsValidDoc_def)

lemma annotateColumn_flags:
  "c_Name (annotateColumn manifestColumns manifestTableTests colName col) = c_Name col \<and>
   (c_Doc (annotateColumn manifestColumns manifestTableTests colName col) \<longleftrightarrow>
      (\<exists>mc ci s. manifestColumns = Some mc \<and> getObject mc colName = Some ci \<and>
                 map_of ci ''description'' = Some (JStr s) \<and> s \<noteq> [])) \<and>
   (c_Test (annotateColumn manifestColumns manifestTableTests colName col) \<longleftrightarrow>
      testsOfColumn manifestTableTests colName \<noteq> [])"
proof -
  have "index ci ''description'' = JStr s \<longleftrightarrow> map_of ci ''description'' = Some (JStr s)"
    for ci s
    by (simp add: index_def split: option.split)
  then show ?thesis
    by (auto simp: annotateColumn_def Let_def IsValidDoc_iff IsValidTest_def
             split: option.splits)
qed

text \<open>
  Claim C8: in the report of the catalog that \<^verbatim>\<open>loadFiles\<close> returns, every column
  of every table has one column report, whose total is 1 and whose covered count is 0
  or 1. For the kind \<^verbatim>\<open>doc\<close> it is 1 exactly when the manifest table of the
  identifier has, under the key of the column, a column object whose
  \<^verbatim>\<open>description\<close> is a non-empty string; for the kind \<^verbatim>\<open>test\<close> it is 1 exactly
  when the test index holds at least one test for the identifier and the column,
  whatever their number.
\<close>

theorem C8_column_contribution:
  assumes "loadManifest ToLower sep manifestFile = Ret (Some manifest, None)"
    and "loadFiles ToLower sep manifestFile catalogFile = Ret (catalog, None)"
    and "i < length (Tables catalog)"
    and "Tables catalog ! i = (tableID, table)"
    and "j < length (t_Columns table)"
    and "t_Columns table ! j = (colName, col)"
    and "cr = tr_Columns (jr_Tables (computeJSONReport catalog covType) ! i) ! j"
  shows "length (jr_Tables (computeJSONReport catalog covType)) = length (Tables catalog) \<and>
         length (tr_Columns (jr_Tables (computeJSONReport catalog covType) ! i))
           = length (t_Columns table) \<and>
         cr_Name cr = colName \<and> cr_Total cr = 1 \<and>
         (cr_Covered cr = 0 \<or> cr_Covered cr = 1) \<and>
         (covType = CoverageTypeDoc \<longrightarrow>
            (cr_Covered cr = 1 \<longleftrightarrow>
               (\<exists>mt mc ci s. manifestTableFor manifest tableID = Some mt \<and>
                  getObject mt ''columns'' = Some mc \<and> getObject mc colName = Some ci \<and>
                  map_of ci ''description'' = Some (JStr s) \<and> s \<noteq> []))) \<and>
         (covType = CoverageTypeTest \<longrightarrow>
            (cr_Covered cr = 1 \<longleftrightarrow>
               testsOfColumn (testsOfTable (Tests manifest) tableID) colName \<noteq> []))"
proof -
  from loadFiles_result [OF assms(2)] assms(1)
  obtain j' catalogJSON c0 where
    c0: "CatalogFromNodes ToLower (catalogNodesOf catalogJSON) manifest = Ret (c0, None)" and
    tabs: "Tables catalog = map (\<lambda>(k, t). (k, annotateTable manifest k t)) (Tables c0)"
    by auto
  from c0 have loop: "catalogLoop ToLower (catalogNodesOf catalogJSON) manifest [] = Ret (c0, None)"
    by (simp add: CatalogFromNodes_def)
  from tabs assms(3) have i0: "i < length (Tables c0)" by simp
  obtain k0 t0 where e0: "Tables c0 ! i = (k0, t0)" by (cases "Tables c0 ! i")
  from tabs i0 e0 assms(4) have k0: "k0 = tableID" and table: "table = annotateTable manifest tableID t0"
    by auto
  from i0 e0 k0 have mem: "(tableID, t0) \<in> set (Tables c0)" by (metis nth_mem)
  from catalogLoop_result [OF loop] mem
  obtain node where "NewTableFromNode ToLower node manifest = Ret (t0, None)" by auto
  from NewTableFromNode_result [OF this]
  have d: "distinct (map fst (t_Columns t0))" and nm: "\<forall>(k, c) \<in> set (t_Columns t0). c_Name c = k"
    by simp_all
  let ?mc = "case manifestTableFor manifest tableID of
               Some mt \<Rightarrow> getObject mt ''columns'' | None \<Rightarrow> None"
  let ?mt = "testsOfTable (Tests manifest) tableID"
  from table annotateTable_columns [OF d, of manifest tableID]
  have cols: "t_Columns table = map (\<lambda>(k, c). (k, annotateColumn ?mc ?mt k c)) (t_Columns t0)"
    by simp
  from cols assms(5) have j0: "j < length (t_Columns t0)" by simp
  obtain k1 col0 where e1: "t_Columns t0 ! j = (k1, col0)" by (cases "t_Columns t0 ! j")
  from cols j0 e1 assms(6) have k1: "k1 = colName" and col: "col = annotateColumn ?mc ?mt colName col0"
    by auto
  from j0 e1 k1 have "(colName, col0) \<in> set (t_Columns t0)" by (metis nth_mem)
  with nm have name0: "c_Name col0 = colName" by auto
  from annotateColumn_flags [of ?mc ?mt colName col0] col name0
  have name: "c_Name col = colName"
    and doc: "c_Doc col \<longleftrightarrow>
               (\<exists>mc ci s. ?mc = Some mc \<and> getObject mc colName = Some ci \<and>
                  map_of ci ''description'' = Some (JStr s) \<and> s \<noteq> [])"
    and test: "c_Test col \<longleftrightarrow> testsOfColumn ?mt colName \<noteq> []"
    by simp_all
  have doc': "c_Doc col \<longleftrightarrow>
               (\<exists>mt mc ci s. manifestTableFor manifest tableID = Some mt \<and>
                  getObject mt ''columns'' = Some mc \<and> getObject mc colName = Some ci \<and>
                  map_of ci ''description'' = Some (JStr s) \<and> s \<noteq> [])"
    unfolding doc by (cases "manifestTableFor manifest tableID") auto
  have rt: "jr_Tables (computeJSONReport catalog covType) ! i = reportTable covType table"
    using assms(3,4) by (simp add: computeJSONReport_tables)
  have len1: "length (jr_Tables (computeJSONReport catalog covType)) = length (Tables catalog)"
    by (simp add: computeJSONReport_tables)
  have len2: "length (tr_Columns (jr_Tables (computeJSONReport catalog covType) ! i))
                = length (t_Columns table)"
    by (simp add: rt reportTable_columns)
  have cr: "cr = \<lparr>cr_Name = c_Name col, cr_Covered = colCovered covType col,
                  cr_Total = 1, cr_Coverage = fdiv (colCovered covType col) 1\<rparr>"
    using assms(5,6,7) by (simp add: rt reportTable_columns)
  have neq: "CoverageTypeTest \<noteq> CoverageTypeDoc"
    by (simp add: CoverageTypeTest_def CoverageTypeDoc_def)
  show ?thesis
    using len1 len2 cr name doc' test neq by (auto simp: colCovered_def)
qed
theorem C8_column_contribution_witness:
  "loadFiles asciiToLower CHR ''/''
     (Decoded (JObj [(''nodes'', JObj [
        (''model.p.users'',
         JObj [(''resource_type'', JStr ''model''), (''unique_id'', JStr ''model.p.users''),
               (''schema'', JStr ''analytics''), (''name'', JStr ''users''),
               (''columns'', JObj [(''id'', JObj [(''name'', JStr ''id''),
                                                  (''description'', JStr ''pk'')]),
                                   (''email'', JObj [(''name'', JStr ''email'')])])]),
        (''test.p.nn'',
         JObj [(''resource_type'', JStr ''test''), (''column_name'', JStr ''email''),
               (''test_metadata'', JObj [(''name'', JStr ''not_null'')]),
               (''depends_on'', JObj [(''nodes'', JArr [JStr ''model.p.users''])])])])]))
     (Decoded (JObj [(''nodes'', JObj [
        (''model.p.users'',
         JObj [(''unique_id'', JStr ''model.p.users''),
               (''columns'', JObj [(''id'', JObj [(''name'', JStr ''id'')]),
                                   (''email'', JObj [(''name'', JStr ''email'')])])])])]))
   = Ret (\<lparr>Tables = [(''model.p.users'',
            \<lparr>t_UniqueID = ''model.p.users'', t_Name = ''analytics.users'',
             t_OriginalFilePath = [],
             t_Columns = [(''id'', \<lparr>c_Name = ''id'', c_Doc = True, c_Test = False\<rparr>),
                          (''email'', \<lparr>c_Name = ''email'', c_Doc = False, c_Test = True\<rparr>)]\<rparr>)]\<rparr>,
          None) \<and>
   map (\<lambda>c. (cr_Name c, cr_Covered c, cr_Total c))
     (tr_Columns (jr_Tables (computeJSONReport
        \<lparr>Tables = [(''model.p.users'',
            \<lparr>t_UniqueID = ''model.p.users'', t_Name = ''analytics.users'',
             t_OriginalFilePath = [],
             t_Columns = [(''id'', \<lparr>c_Name = ''id'', c_Doc = True, c_Test = False\<rparr>),
                          (''email'', \<lparr>c_Name = ''email'', c_Doc = False, c_Test = True\<rparr>)]\<rparr>)]\<rparr>
        CoverageTypeDoc) ! 0))
   = [(''id'', 1, 1), (''email'', 0, 1)] \<and>
   (\<exists>mt mc ci s.
      manifestTableFor
        \<lparr>Sources = [],
         Models = [(''model.p.users'',
           [(''resource_type'', JStr ''model''), (''unique_id'', JStr ''model.p.users''),
            (''schema'', JStr ''analytics''), (''name'', JStr ''analytics.users''),
            (''columns'', JObj [(''id'', JObj [(''name'', JStr ''id''),
                                               (''description'', JStr ''pk'')]),
                                (''email'', JObj [(''name'', JStr ''email'')])])])],
         Seeds = [], Snapshots = [],
         Tests = [(''model.p.users'', [(''email'',
           [JObj [(''resource_type'', JStr ''test''), (''column_name'', JStr ''email''),
                  (''test_metadata'', JObj [(''name'', JStr ''not_null'')]),
                  (''depends_on'', JObj [(''nodes'', JArr [JStr ''model.p.users''])])]])])]\<rparr>
        ''model.p.users'' = Some mt \<and>
      getObject mt ''columns'' = Some mc \<and> getObject mc ''id'' = Some ci \<and>
      map_of ci ''description'' = Some (JStr s) \<and> s \<noteq> [])"
proof -
  let ?mf = "Decoded (JObj [(''nodes'', JObj [
        (''model.p.users'',
         JObj [(''resource_type'', JStr ''model''), (''unique_id'', JStr ''model.p.users''),
               (''schema'', JStr ''analytics''), (''name'', JStr ''users''),
               (''columns'', JObj [(''id'', JObj [(''name'', JStr ''id''),
                                                  (''description'', JStr ''pk'')]),
                                   (''email'', JObj [(''name'', JStr ''email'')])])]),
        (''test.p.nn'',
         JObj [(''resource_type'', JStr ''test''), (''column_name'', JStr ''email''),
               (''test_metadata'', JObj [(''name'', JStr ''not_null'')]),
               (''depends_on'', JObj [(''nodes'', JArr [JStr ''model.p.users''])])])])])"
  let ?cf = "Decoded (JObj [(''nodes'', JObj [
        (''model.p.users'',
         JObj [(''unique_id'', JStr ''model.p.users''),
               (''columns'', JObj [(''id'', JObj [(''name'', JStr ''id'')]),
                                   (''email'', JObj [(''name'', JStr ''email'')])])])])])"
  let ?id = "\<lparr>c_Name = ''id'', c_Doc = True, c_Test = False\<rparr>"
  let ?t = "\<lparr>t_UniqueID = ''model.p.users'', t_Name = ''analytics.users'',
             t_OriginalFilePath = [],
             t_Columns = [(''id'', ?id),
                          (''email'', \<lparr>c_Name = ''email'', c_Doc = False, c_Test = True\<rparr>)]\<rparr>"
  let ?cat = "\<lparr>Tables = [(''model.p.users'', ?t)]\<rparr>"
  let ?m = "\<lparr>Sources = [],
         Models = [(''model.p.users'',
           [(''resource_type'', JStr ''model''), (''unique_id'', JStr ''model.p.users''),
            (''schema'', JStr ''analytics''), (''name'', JStr ''analytics.users''),
            (''columns'', JObj [(''id'', JObj [(''name'', JStr ''id''),
                                               (''description'', JStr ''pk'')]),
                                (''email'', JObj [(''name'', JStr ''email'')])])])],
         Seeds = [], Snapshots = [],
         Tests = [(''model.p.users'', [(''email'',
           [JObj [(''resource_type'', JStr ''test''), (''column_name'', JStr ''email''),
                  (''test_metadata'', JObj [(''name'', JStr ''not_null'')]),
                  (''depends_on'', JObj [(''nodes'', JArr [JStr ''model.p.users''])])]])])]\<rparr>"
  have m: "loadManifest asciiToLower CHR ''/'' ?mf = Ret (Some ?m, None)"
    by code_simp
  have l: "loadFiles asciiToLower CHR ''/'' ?mf ?cf = Ret (?cat, None)"
    by code_simp
  have r: "map (\<lambda>c. (cr_Name c, cr_Covered c, cr_Total c))
             (tr_Columns (jr_Tables (computeJSONReport ?cat CoverageTypeDoc) ! 0))
           = [(''id'', 1, 1), (''email'', 0, 1)]"
    by code_simp
  have h3: "0 < length (Tables ?cat)" by simp
  have h4: "Tables ?cat ! 0 = (''model.p.users'', ?t)" by simp
  have h5: "0 < length (t_Columns ?t)" by simp
  have h6: "t_Columns ?t ! 0 = (''id'', ?id)" by simp
  from r have one: "cr_Covered (tr_Columns (jr_Tables (computeJSONReport ?cat CoverageTypeDoc) ! 0) ! 0) = 1"
    by (cases "tr_Columns (jr_Tables (computeJSONReport ?cat CoverageTypeDoc) ! 0)") auto
  from C8_column_contribution [OF m l h3 h4 h5 h6 refl, of CoverageTypeDoc] one
  have "\<exists>mt mc ci s. manifestTableFor ?m ''model.p.users'' = Some mt \<and>
          getObject mt ''columns'' = Some mc \<and> getObject mc ''id'' = Some ci \<and>
          map_of ci ''description'' = Some (JStr s) \<and> s \<noteq> []"
    by blast
  with l r show ?thesis by blast
qed

end
